theory Spec2Isabelle
  imports Complex_Main
begin

section \<open>Data model\<close>

text \<open>
  The development follows the puzzle generator and the export utilities.  Three versions
  of the generator class are covered: the seeded one (with \<open>random\<close>, \<open>resetSeed\<close>,
  \<open>createClassicPiece\<close> and \<open>createCircularClassicPiece\<close>), which the sections below
  call the generator; the one of puzzle-generator.js, called the first generator; and,
  of the version that builds every circular piece with \<open>createCircularPiece\<close>, that one
  function.  Of export-utils.js the version with the layers \<open>CUT\<close> and \<open>BORDER\<close> is
  covered.

  JavaScript numbers that carry coordinates are modelled as \<open>real\<close>: rounding of
  doubles is not part of the model, except in the seed arithmetic, where it is written
  out, and in the flattening of an arc, whose double arithmetic is left open.  Loop counters, grid sizes (\<open>cols\<close>, \<open>rows\<close>), tab polarities and the
  generator's seed are integers.  A path string is represented by the sequence of
  commands it spells: \<open>M x y\<close> is \<open>MoveTo x y\<close>, \<open>A rx ry rot large sweep x y\<close> is
  \<open>ArcTo rx ry rot large sweep x y\<close>, and so on, every command carrying exactly the
  numbers its letter reads; \<open>Unhandled\<close> stands for the letters \<open>S\<close> and \<open>T\<close>, which
  \<open>getPathPoints\<close> matches and ignores.
\<close>

datatype pathcmd =
    MoveTo real real
  | LineTo real real
  | HorizTo real
  | VertTo real
  | CubicTo real real real real real real
  | QuadTo real real real real
  | ArcTo real real real real real real real
  | ClosePath
  | Unhandled

record bounds =
  bounds_x :: real
  bounds_y :: real
  bounds_width :: real
  bounds_height :: real

text \<open>
  A rectangular piece object has the fields \<open>row\<close>, \<open>col\<close>; a circular one has
  \<open>ring\<close>, \<open>segment\<close>.
\<close>

datatype position = RowCol nat nat | RingSegment nat nat

record piece =
  path :: "pathcmd list"
  pos :: position
  pbounds :: bounds

record puzzle =
  pieces :: "piece list"
  borderPath :: "pathcmd list"
  p_width :: real
  p_height :: real
  p_cols :: int
  p_rows :: int
  p_form :: string
  p_pieceType :: string
  p_lineWidth :: real
  p_margin :: real
  p_center :: "(real \<times> real \<times> real) option"

text \<open>The generator object: its two fields.\<close>

record generator =
  currentPuzzle :: "puzzle option"
  seed :: int

section \<open>The seeded generator\<close>

text \<open>
  \<open>this.seed * 1103515245 + 12345\<close> is computed on IEEE doubles.  An integer below
  \<open>2^53\<close> is a double; a larger one is rounded to 53 significant bits, ties to even, and
  one that rounds to \<open>2^1024\<close> or more becomes infinite (\<open>None\<close>).
\<close>

fun bitlen :: "nat \<Rightarrow> nat" where
  "bitlen n = (if n = 0 then 0 else Suc (bitlen (n div 2)))"

declare bitlen.simps [simp del]

definition roundNat :: "nat \<Rightarrow> nat" where
  "roundNat n =
     (if n < 2 ^ 53 then n
      else let e = bitlen n - 53;
               q = n div 2 ^ e;
               r = n mod 2 ^ e;
               half = 2 ^ (e - 1)
           in if r > half \<or> (r = half \<and> odd q) then (q + 1) * 2 ^ e else q * 2 ^ e)"

definition toDouble :: "int \<Rightarrow> int option" where
  "toDouble n =
     (let m = roundNat (nat \<bar>n\<bar>)
      in if m \<ge> 2 ^ 1024 then None
         else Some (if n < 0 then - int m else int m))"

text \<open>
  \<open>v & 0x7fffffff\<close>: the operand is taken modulo \<open>2^32\<close> as a 32-bit integer (an infinite
  one is 0), and the mask keeps its low 31 bits.
\<close>

definition mask31 :: "int option \<Rightarrow> int" where
  "mask31 v = (case v of None \<Rightarrow> 0 | Some n \<Rightarrow> n mod 2 ^ 31)"

definition nextSeed :: "int \<Rightarrow> int" where
  "nextSeed s =
     mask31 (case toDouble (s * 1103515245) of
               None \<Rightarrow> None
             | Some p \<Rightarrow> toDouble (p + 12345))"

definition random :: "generator \<Rightarrow> real \<times> generator" where
  "random g =
     (let s = nextSeed (seed g)
      in (real_of_int s / 2147483647, g\<lparr>seed := s\<rparr>))"

text \<open>\<open>resetSeed(seed = Date.now())\<close>: the clock value is the argument \<open>now\<close>.\<close>

definition resetSeed :: "int \<Rightarrow> int option \<Rightarrow> generator \<Rightarrow> generator" where
  "resetSeed now s g = g\<lparr>seed := (case s of None \<Rightarrow> now | Some v \<Rightarrow> v)\<rparr>"

fun tabRow :: "nat \<Rightarrow> generator \<Rightarrow> int list \<times> generator" where
  "tabRow 0 g = ([], g)"
| "tabRow (Suc n) g =
     (let (r, g1) = random g;
          e = (if r > 0.5 then 1 else - 1);
          (rest, g2) = tabRow n g1
      in (e # rest, g2))"

fun tabRows :: "nat \<Rightarrow> nat \<Rightarrow> generator \<Rightarrow> int list list \<times> generator" where
  "tabRows 0 c g = ([], g)"
| "tabRows (Suc n) c g =
     (let (r, g1) = tabRow c g;
          (rest, g2) = tabRows n c g1
      in (r # rest, g2))"

text \<open>The loops \<open>row < rows\<close>, \<open>col < cols\<close> do not run for a bound that is zero or less.\<close>

definition generateTabMatrix :: "int \<Rightarrow> int \<Rightarrow> generator \<Rightarrow> int list list \<times> generator" where
  "generateTabMatrix c r g = tabRows (nat r) (nat c) g"

section \<open>Piece builders\<close>

definition createGridPiece :: "real \<Rightarrow> real \<Rightarrow> real \<Rightarrow> real \<Rightarrow> nat \<Rightarrow> nat \<Rightarrow> piece" where
  "createGridPiece x y w h row col =
     \<lparr>path = [MoveTo x y, LineTo (x + w) y, LineTo (x + w) (y + h), LineTo x (y + h), ClosePath],
      pos = RowCol row col,
      pbounds = \<lparr>bounds_x = x, bounds_y = y, bounds_width = w, bounds_height = h\<rparr>\<rparr>"

definition createEdgePath ::
  "real \<Rightarrow> real \<Rightarrow> real \<Rightarrow> real \<Rightarrow> real \<Rightarrow> int \<Rightarrow> string \<Rightarrow> pathcmd list" where
  "createEdgePath x1 y1 x2 y2 tabSize tabDirection edge =
     (if tabDirection = 0 then [LineTo x2 y2]
      else
        let isHorizontal = (edge = ''top'' \<or> edge = ''bottom'');
            tabWidth = tabSize * 0.8;
            neckWidth = tabSize * 0.4;
            tabDepth = tabSize * real_of_int tabDirection
        in if isHorizontal then
             let dir = (if x2 > x1 then 1 else - 1);
                 midX = (x1 + x2) / 2;
                 y = y1
             in [LineTo (midX - (tabWidth + neckWidth) / 2 * dir) y,
                 CubicTo (midX - tabWidth / 2 * dir) (y + tabDepth * 0.2)
                         (midX - tabWidth / 2 * dir) (y + tabDepth * 0.5)
                         (midX - tabWidth / 2 * dir) (y + tabDepth * 0.5),
                 CubicTo (midX - tabWidth * 0.7 * dir) (y + tabDepth * 0.8)
                         (midX - tabWidth * 0.5 * dir) (y + tabDepth)
                         midX (y + tabDepth),
                 CubicTo (midX + tabWidth * 0.5 * dir) (y + tabDepth)
                         (midX + tabWidth * 0.7 * dir) (y + tabDepth * 0.8)
                         (midX + tabWidth / 2 * dir) (y + tabDepth * 0.5),
                 CubicTo (midX + tabWidth / 2 * dir) (y + tabDepth * 0.2)
                         (midX + (tabWidth + neckWidth) / 2 * dir) y
                         (midX + (tabWidth + neckWidth) / 2 * dir) y,
                 LineTo x2 y2]
           else
             let dir = (if y2 > y1 then 1 else - 1);
                 midY = (y1 + y2) / 2;
                 x = x1
             in [LineTo x (midY - (tabWidth + neckWidth) / 2 * dir),
                 CubicTo (x + tabDepth * 0.2) (midY - tabWidth / 2 * dir)
                         (x + tabDepth * 0.5) (midY - tabWidth / 2 * dir)
                         (x + tabDepth * 0.5) (midY - tabWidth / 2 * dir),
                 CubicTo (x + tabDepth * 0.8) (midY - tabWidth * 0.7 * dir)
                         (x + tabDepth) (midY - tabWidth * 0.5 * dir)
                         (x + tabDepth) midY,
                 CubicTo (x + tabDepth) (midY + tabWidth * 0.5 * dir)
                         (x + tabDepth * 0.8) (midY + tabWidth * 0.7 * dir)
                         (x + tabDepth * 0.5) (midY + tabWidth / 2 * dir),
                 CubicTo (x + tabDepth * 0.2) (midY + tabWidth / 2 * dir)
                         x (midY + (tabWidth + neckWidth) / 2 * dir)
                         x (midY + (tabWidth + neckWidth) / 2 * dir),
                 LineTo x2 y2])"

text \<open>The four polarities handed to \<open>createClassicPiece\<close>.\<close>

record tabs =
  topTab :: int
  rightTab :: int
  bottomTab :: int
  leftTab :: int

definition createClassicPiece ::
  "real \<Rightarrow> real \<Rightarrow> real \<Rightarrow> real \<Rightarrow> real \<Rightarrow> tabs \<Rightarrow> nat \<Rightarrow> nat \<Rightarrow> piece" where
  "createClassicPiece x y w h tabSize t row col =
     \<lparr>path = [MoveTo x y]
             @ createEdgePath x y (x + w) y tabSize (topTab t) ''top''
             @ createEdgePath (x + w) y (x + w) (y + h) tabSize (rightTab t) ''right''
             @ createEdgePath (x + w) (y + h) x (y + h) tabSize (bottomTab t) ''bottom''
             @ createEdgePath x (y + h) x y tabSize (leftTab t) ''left''
             @ [ClosePath],
      pos = RowCol row col,
      pbounds = \<lparr>bounds_x = x - tabSize, bounds_y = y - tabSize,
                 bounds_width = w + 2 * tabSize, bounds_height = h + 2 * tabSize\<rparr>\<rparr>"

definition circleBounds :: "real \<Rightarrow> real \<Rightarrow> real \<Rightarrow> bounds" where
  "circleBounds centerX centerY outerRadius =
     \<lparr>bounds_x = centerX - outerRadius, bounds_y = centerY - outerRadius,
      bounds_width = outerRadius * 2, bounds_height = outerRadius * 2\<rparr>"

definition createCircularGridPiece ::
  "real \<Rightarrow> real \<Rightarrow> real \<Rightarrow> real \<Rightarrow> real \<Rightarrow> real \<Rightarrow> nat \<Rightarrow> nat \<Rightarrow> piece" where
  "createCircularGridPiece centerX centerY innerRadius outerRadius startAngle endAngle ring segment =
     (let x1 = centerX + cos startAngle * innerRadius;
          y1 = centerY + sin startAngle * innerRadius;
          x2 = centerX + cos endAngle * innerRadius;
          y2 = centerY + sin endAngle * innerRadius;
          x3 = centerX + cos endAngle * outerRadius;
          y3 = centerY + sin endAngle * outerRadius;
          x4 = centerX + cos startAngle * outerRadius;
          y4 = centerY + sin startAngle * outerRadius;
          largeArc = (if endAngle - startAngle > pi then 1 else 0)
      in \<lparr>path =
            (if innerRadius = 0 then
               [MoveTo centerX centerY, LineTo x4 y4,
                ArcTo outerRadius outerRadius 0 largeArc 1 x3 y3, ClosePath]
             else
               [MoveTo x1 y1, ArcTo innerRadius innerRadius 0 largeArc 1 x2 y2,
                LineTo x3 y3, ArcTo outerRadius outerRadius 0 largeArc 0 x4 y4, ClosePath]),
          pos = RingSegment ring segment,
          pbounds = circleBounds centerX centerY outerRadius\<rparr>)"

text \<open>
  \<open>createCircularPiece\<close> of the variant that has no separate classic builder: the pie
  slice is chosen by \<open>innerRadius < 1\<close>.
\<close>

definition createCircularPiece ::
  "real \<Rightarrow> real \<Rightarrow> real \<Rightarrow> real \<Rightarrow> real \<Rightarrow> real \<Rightarrow> nat \<Rightarrow> nat \<Rightarrow> piece" where
  "createCircularPiece centerX centerY innerRadius outerRadius startAngle endAngle ring segment =
     (let x1 = centerX + cos startAngle * innerRadius;
          y1 = centerY + sin startAngle * innerRadius;
          x2 = centerX + cos endAngle * innerRadius;
          y2 = centerY + sin endAngle * innerRadius;
          x3 = centerX + cos endAngle * outerRadius;
          y3 = centerY + sin endAngle * outerRadius;
          x4 = centerX + cos startAngle * outerRadius;
          y4 = centerY + sin startAngle * outerRadius;
          largeArc = (if endAngle - startAngle > pi then 1 else 0)
      in \<lparr>path =
            (if innerRadius < 1 then
               [MoveTo centerX centerY, LineTo x4 y4,
                ArcTo outerRadius outerRadius 0 largeArc 1 x3 y3, ClosePath]
             else
               [MoveTo x1 y1, ArcTo innerRadius innerRadius 0 largeArc 1 x2 y2,
                LineTo x3 y3, ArcTo outerRadius outerRadius 0 largeArc 0 x4 y4, ClosePath]),
          pos = RingSegment ring segment,
          pbounds = circleBounds centerX centerY outerRadius\<rparr>)"

text \<open>
  The classic circular builder receives \<open>tabSize\<close>, \<open>innerTab\<close>, \<open>outerTab\<close> and
  \<open>totalSegments\<close>; a tab that was read from a missing matrix cell is \<open>None\<close>.
\<close>

definition createCircularClassicPiece ::
  "real \<Rightarrow> real \<Rightarrow> real \<Rightarrow> real \<Rightarrow> real \<Rightarrow> real \<Rightarrow> real \<Rightarrow> int option \<Rightarrow> int option
     \<Rightarrow> nat \<Rightarrow> nat \<Rightarrow> int \<Rightarrow> piece" where
  "createCircularClassicPiece centerX centerY innerRadius outerRadius startAngle endAngle
       tabSize innerTab outerTab ring segment totalSegments =
     (let x1 = centerX + cos startAngle * innerRadius;
          y1 = centerY + sin startAngle * innerRadius;
          x2 = centerX + cos endAngle * innerRadius;
          y2 = centerY + sin endAngle * innerRadius;
          x3 = centerX + cos endAngle * outerRadius;
          y3 = centerY + sin endAngle * outerRadius;
          x4 = centerX + cos startAngle * outerRadius;
          y4 = centerY + sin startAngle * outerRadius;
          largeArc = (if endAngle - startAngle > pi then 1 else 0)
      in \<lparr>path =
            (if innerRadius = 0 then
               [MoveTo centerX centerY, LineTo x4 y4,
                ArcTo outerRadius outerRadius 0 largeArc 1 x3 y3,
                LineTo centerX centerY]
             else
               [MoveTo x1 y1, ArcTo innerRadius innerRadius 0 largeArc 1 x2 y2,
                LineTo x3 y3, ArcTo outerRadius outerRadius 0 largeArc 0 x4 y4,
                LineTo x1 y1])
            @ [ClosePath],
          pos = RingSegment ring segment,
          pbounds = circleBounds centerX centerY outerRadius\<rparr>)"

section \<open>Layouts\<close>

datatype js_error = TypeError | Error string

text \<open>
  The polarities of the piece at \<open>(row, col)\<close>, as the rectangular layout computes
  them.  Every read is inside its matrix (lemmas \<open>horizontal_cell\<close>, \<open>vertical_cell\<close>
  below), so the reads are written with \<open>!\<close>.
\<close>

definition pieceTabs :: "int \<Rightarrow> int \<Rightarrow> int list list \<Rightarrow> int list list \<Rightarrow> nat \<Rightarrow> nat \<Rightarrow> tabs" where
  "pieceTabs cols rows horizontalTabs verticalTabs row col =
     \<lparr>topTab = (if row > 0 then verticalTabs ! (row - 1) ! col else 0),
      rightTab = (if int col < cols - 1 then horizontalTabs ! row ! col else 0),
      bottomTab = (if int row < rows - 1 then - (verticalTabs ! row ! col) else 0),
      leftTab = (if col > 0 then - (horizontalTabs ! row ! (col - 1)) else 0)\<rparr>"

definition rectPiece ::
  "string \<Rightarrow> real \<Rightarrow> real \<Rightarrow> real \<Rightarrow> real \<Rightarrow> int \<Rightarrow> int \<Rightarrow> int list list \<Rightarrow> int list list
     \<Rightarrow> nat \<Rightarrow> nat \<Rightarrow> piece" where
  "rectPiece pieceType margin pieceWidth pieceHeight tabSize cols rows horizontalTabs verticalTabs
       row col =
     (let x = margin + real col * pieceWidth;
          y = margin + real row * pieceHeight
      in if pieceType = ''grid'' then createGridPiece x y pieceWidth pieceHeight row col
         else createClassicPiece x y pieceWidth pieceHeight tabSize
                (pieceTabs cols rows horizontalTabs verticalTabs row col) row col)"

definition generateRectangularPuzzle ::
  "int \<Rightarrow> int \<Rightarrow> real \<Rightarrow> real \<Rightarrow> real \<Rightarrow> string \<Rightarrow> real \<Rightarrow> string \<Rightarrow> generator
     \<Rightarrow> puzzle \<times> generator" where
  "generateRectangularPuzzle cols rows width height margin pieceType lineWidth form g =
     (let innerWidth = width - 2 * margin;
          innerHeight = height - 2 * margin;
          pieceWidth = innerWidth / real_of_int cols;
          pieceHeight = innerHeight / real_of_int rows;
          tabSize = min pieceWidth pieceHeight * 0.22;
          (horizontalTabs, g1) = generateTabMatrix (cols - 1) rows g;
          (verticalTabs, g2) = generateTabMatrix cols (rows - 1) g1;
          ps =
            concat (map (\<lambda>row. map (rectPiece pieceType margin pieceWidth pieceHeight tabSize
                                         cols rows horizontalTabs verticalTabs row)
                                    [0..<nat cols])
                        [0..<nat rows]);
          border = [MoveTo margin margin, LineTo (width - margin) margin,
                    LineTo (width - margin) (height - margin),
                    LineTo margin (height - margin), ClosePath]
      in (\<lparr>pieces = ps, borderPath = border, p_width = width, p_height = height,
           p_cols = cols, p_rows = rows, p_form = form, p_pieceType = pieceType,
           p_lineWidth = lineWidth, p_margin = margin, p_center = None\<rparr>, g2))"

text \<open>
  \<open>m[i][j]\<close>: reading a column of a missing row raises TypeError; a missing column of an
  existing row is \<open>undefined\<close> (\<open>None\<close>), and so is its negation.
\<close>

definition cell :: "int list list \<Rightarrow> nat \<Rightarrow> nat \<Rightarrow> js_error + int option" where
  "cell m i j =
     (if i < length m then Inr (if j < length (m ! i) then Some (m ! i ! j) else None)
      else Inl TypeError)"

definition negate :: "js_error + int option \<Rightarrow> js_error + int option" where
  "negate v = (case v of Inl e \<Rightarrow> Inl e | Inr n \<Rightarrow> Inr (map_option uminus n))"

fun collect :: "('e + 'a) list \<Rightarrow> 'e + 'a list" where
  "collect [] = Inr []"
| "collect (x # xs) =
     (case x of
        Inl e \<Rightarrow> Inl e
      | Inr v \<Rightarrow> (case collect xs of Inl e \<Rightarrow> Inl e | Inr vs \<Rightarrow> Inr (v # vs)))"

definition circPiece ::
  "string \<Rightarrow> real \<Rightarrow> real \<Rightarrow> real \<Rightarrow> real \<Rightarrow> int \<Rightarrow> int \<Rightarrow> int list list \<Rightarrow> nat \<Rightarrow> nat
     \<Rightarrow> js_error + piece" where
  "circPiece pieceType centerX centerY ringWidth tabSize segments rings radialTabs ring segment =
     (let innerRadius = real ring * ringWidth;
          outerRadius = (real ring + 1) * ringWidth;
          startAngle = (real segment / real_of_int segments) * pi * 2 - pi / 2;
          endAngle = ((real segment + 1) / real_of_int segments) * pi * 2 - pi / 2
      in if pieceType = ''grid'' then
           Inr (createCircularGridPiece centerX centerY innerRadius outerRadius
                  startAngle endAngle ring segment)
         else
           (case (if ring > 0 then cell radialTabs segment (ring - 1) else Inr (Some 0)) of
              Inl e \<Rightarrow> Inl e
            | Inr innerTab \<Rightarrow>
                (case (if int ring < rings - 1 then negate (cell radialTabs segment ring)
                       else Inr (Some 0)) of
                   Inl e \<Rightarrow> Inl e
                 | Inr outerTab \<Rightarrow>
                     Inr (createCircularClassicPiece centerX centerY innerRadius outerRadius
                            startAngle endAngle tabSize innerTab outerTab ring segment segments))))"

definition generateCircularPuzzle ::
  "int \<Rightarrow> int \<Rightarrow> real \<Rightarrow> real \<Rightarrow> real \<Rightarrow> string \<Rightarrow> real \<Rightarrow> generator
     \<Rightarrow> js_error + puzzle \<times> generator" where
  "generateCircularPuzzle segments rings width height margin pieceType lineWidth g =
     (let centerX = width / 2;
          centerY = height / 2;
          maxRadius = min width height / 2 - margin;
          ringWidth = maxRadius / real_of_int rings;
          tabSize = ringWidth * 0.18;
          (radialTabs, g1) = generateTabMatrix segments (rings - 1) g;
          (ringTabs, g2) = generateTabMatrix (segments - 1) rings g1;
          border = [MoveTo (centerX + maxRadius) centerY,
                    ArcTo maxRadius maxRadius 0 1 1 (centerX - maxRadius) centerY,
                    ArcTo maxRadius maxRadius 0 1 1 (centerX + maxRadius) centerY,
                    ClosePath]
      in case collect (concat (map (\<lambda>ring. map (circPiece pieceType centerX centerY ringWidth
                                                      tabSize segments rings radialTabs ring)
                                                 [0..<nat segments])
                                     [0..<nat rings])) of
           Inl e \<Rightarrow> Inl e
         | Inr ps \<Rightarrow>
             Inr (\<lparr>pieces = ps, borderPath = border, p_width = width, p_height = height,
                   p_cols = segments, p_rows = rings, p_form = ''circular'',
                   p_pieceType = pieceType, p_lineWidth = lineWidth, p_margin = margin,
                   p_center = Some (centerX, centerY, maxRadius)\<rparr>, g2))"

text \<open>The options object of \<open>generate\<close>; \<open>lineWidth\<close> may be absent.\<close>

record options =
  opt_form :: string
  opt_pieceType :: string
  opt_cols :: int
  opt_rows :: int
  opt_width :: real
  opt_height :: real
  opt_margin :: real
  opt_lineWidth :: "real option"

definition generate :: "int \<Rightarrow> generator \<Rightarrow> options \<Rightarrow> js_error + puzzle \<times> generator" where
  "generate now g opts =
     (let lineWidth = (case opt_lineWidth opts of None \<Rightarrow> 1.5 | Some v \<Rightarrow> v);
          g0 = resetSeed now None g;
          size = min (opt_width opts) (opt_height opts);
          puzzleWidth = (if opt_form opts = ''square'' then size else opt_width opts);
          puzzleHeight = (if opt_form opts = ''square'' then size else opt_height opts)
      in if opt_form opts = ''circular'' then
           generateCircularPuzzle (opt_cols opts) (opt_rows opts) puzzleWidth puzzleHeight
             (opt_margin opts) (opt_pieceType opts) lineWidth g0
         else
           Inr (generateRectangularPuzzle (opt_cols opts) (opt_rows opts) puzzleWidth puzzleHeight
                  (opt_margin opts) (opt_pieceType opts) lineWidth (opt_form opts) g0))"

section \<open>The first generator (puzzle-generator.js)\<close>

text \<open>
  This version draws its polarities from \<open>Math.random()\<close>: the values of the
  successive calls are the sequence \<open>rnd\<close>, and the state is the number of calls made.
  Its puzzle object has the fields \<open>pieces\<close>, \<open>width\<close>, \<open>height\<close>, \<open>cols\<close>,
  \<open>rows\<close>, \<open>type\<close>.
\<close>

record puzzle1 =
  pieces1 :: "piece list"
  width1 :: real
  height1 :: real
  cols1 :: int
  rows1 :: int
  type1 :: string

fun tabRow1 :: "(nat \<Rightarrow> real) \<Rightarrow> nat \<Rightarrow> nat \<Rightarrow> int list \<times> nat" where
  "tabRow1 rnd 0 k = ([], k)"
| "tabRow1 rnd (Suc n) k =
     (let e = (if rnd k > 0.5 then 1 else - 1);
          (rest, k2) = tabRow1 rnd n (Suc k)
      in (e # rest, k2))"

fun tabRows1 :: "(nat \<Rightarrow> real) \<Rightarrow> nat \<Rightarrow> nat \<Rightarrow> nat \<Rightarrow> int list list \<times> nat" where
  "tabRows1 rnd 0 c k = ([], k)"
| "tabRows1 rnd (Suc n) c k =
     (let (r, k1) = tabRow1 rnd c k;
          (rest, k2) = tabRows1 rnd n c k1
      in (r # rest, k2))"

definition generateTabMatrix1 :: "(nat \<Rightarrow> real) \<Rightarrow> int \<Rightarrow> int \<Rightarrow> nat \<Rightarrow> int list list \<times> nat" where
  "generateTabMatrix1 rnd c r k = tabRows1 rnd (nat r) (nat c) k"

text \<open>\<open>s.includes(sub)\<close>.\<close>

fun includes_str :: "string \<Rightarrow> string \<Rightarrow> bool" where
  "includes_str [] sub = (sub = [])"
| "includes_str (c # cs) sub = (take (length sub) (c # cs) = sub \<or> includes_str cs sub)"

definition createTabPath ::
  "real \<Rightarrow> real \<Rightarrow> real \<Rightarrow> real \<Rightarrow> real \<Rightarrow> int \<Rightarrow> string \<Rightarrow> pathcmd list" where
  "createTabPath x1 y1 x2 y2 tabSize direction orientation =
     (let isHorizontal = includes_str orientation ''horizontal'';
          tabWidth = tabSize * 1.5;
          tabHeight = tabSize * real_of_int direction
      in if isHorizontal then
           let midX = (x1 + x2) / 2;
               y = y1
           in [LineTo (midX - tabWidth / 2) y,
               QuadTo (midX - tabWidth / 2) (y + tabHeight * 0.5) midX (y + tabHeight),
               QuadTo (midX + tabWidth / 2) (y + tabHeight * 0.5) (midX + tabWidth / 2) y,
               LineTo x2 y2]
         else
           let midY = (y1 + y2) / 2;
               x = x1
           in [LineTo x (midY - tabWidth / 2),
               QuadTo (x + tabHeight * 0.5) (midY - tabWidth / 2) (x + tabHeight) midY,
               QuadTo (x + tabHeight * 0.5) (midY + tabWidth / 2) x (midY + tabWidth / 2),
               LineTo x2 y2])"

text \<open>
  \<open>createJigsawPiece\<close> receives \<open>hasTopTab\<close>, \<open>hasRightTab\<close>, \<open>hasBottomTab\<close>,
  \<open>hasLeftTab\<close>, here the fields of a \<open>tabs\<close> record.
\<close>

definition createJigsawPiece ::
  "real \<Rightarrow> real \<Rightarrow> real \<Rightarrow> real \<Rightarrow> real \<Rightarrow> tabs \<Rightarrow> nat \<Rightarrow> nat \<Rightarrow> piece" where
  "createJigsawPiece x y w h tabSize t row col =
     \<lparr>path = [MoveTo x y]
             @ (if topTab t \<noteq> 0
                then createTabPath x y (x + w) y tabSize (topTab t) ''horizontal''
                else [LineTo (x + w) y])
             @ (if rightTab t \<noteq> 0
                then createTabPath (x + w) y (x + w) (y + h) tabSize (rightTab t) ''vertical''
                else [LineTo (x + w) (y + h)])
             @ (if bottomTab t \<noteq> 0
                then createTabPath (x + w) (y + h) x (y + h) tabSize (- bottomTab t)
                       ''horizontal-reverse''
                else [LineTo x (y + h)])
             @ (if leftTab t \<noteq> 0
                then createTabPath x (y + h) x y tabSize (- leftTab t) ''vertical-reverse''
                else [LineTo x y])
             @ [ClosePath],
      pos = RowCol row col,
      pbounds = \<lparr>bounds_x = x, bounds_y = y, bounds_width = w, bounds_height = h\<rparr>\<rparr>"

definition generateRectangularPuzzle1 ::
  "(nat \<Rightarrow> real) \<Rightarrow> int \<Rightarrow> int \<Rightarrow> real \<Rightarrow> real \<Rightarrow> real \<Rightarrow> nat \<Rightarrow> puzzle1 \<times> nat" where
  "generateRectangularPuzzle1 rnd cols rows width height margin k =
     (let pieceWidth = (width - 2 * margin) / real_of_int cols;
          pieceHeight = (height - 2 * margin) / real_of_int rows;
          tabSize = min pieceWidth pieceHeight * 0.2;
          (horizontalTabs, k1) = generateTabMatrix1 rnd (cols - 1) rows k;
          (verticalTabs, k2) = generateTabMatrix1 rnd cols (rows - 1) k1;
          ps = concat (map (\<lambda>row. map (\<lambda>col.
                   createJigsawPiece (margin + real col * pieceWidth)
                     (margin + real row * pieceHeight) pieceWidth pieceHeight tabSize
                     (pieceTabs cols rows horizontalTabs verticalTabs row col) row col)
                 [0..<nat cols]) [0..<nat rows])
      in (\<lparr>pieces1 = ps, width1 = width, height1 = height, cols1 = cols, rows1 = rows,
           type1 = ''rectangular''\<rparr>, k2))"





section \<open>Flattening a path (export-utils.js)\<close>

text \<open>
  A flattened point \<open>{x, y}\<close>: \<open>Pt x y\<close> has two numbers as coordinates, \<open>NaNPt\<close>
  is a point whose coordinates are NaN.
\<close>

datatype point = Pt real real | NaNPt

text \<open>
  \<open>approximateArc\<close>.  What decides how many points an arc yields is modelled as the
  code has it: the guard \<open>rx === 0 || ry === 0\<close>, which returns the endpoint alone,
  and the loop \<open>for (let i = 1; i <= segments; i++)\<close>, which pushes one point per
  turn.  The coordinates of the pushed points are the outcome of a chain of
  double-precision operations (the center parameterization with its division by
  \<open>rxSq * y1pSq + rySq * x1pSq\<close>, two calls of \<open>Math.acos\<close> on quotients that are
  not clamped to the interval from -1 to 1, \<open>Math.cos\<close> and \<open>Math.sin\<close> in the
  loop).  Whether such a coordinate is a number or NaN, and which number, depends on
  the rounding of every step, which arithmetic over \<open>real\<close> does not reproduce.  The
  coordinates are therefore not computed here: the point pushed at turn \<open>i\<close> is
  \<open>arcSample x1 y1 rx ry phi fA fS x2 y2 segments i\<close>, where \<open>arcSample\<close> is a
  parameter of the model about which nothing is assumed.
\<close>

type_synonym arc_sampler =
  "real \<Rightarrow> real \<Rightarrow> real \<Rightarrow> real \<Rightarrow> real \<Rightarrow> real \<Rightarrow> real \<Rightarrow> real \<Rightarrow> real \<Rightarrow> nat \<Rightarrow> nat \<Rightarrow> point"

definition approximateArc ::
  "arc_sampler \<Rightarrow> real \<Rightarrow> real \<Rightarrow> real \<Rightarrow> real \<Rightarrow> real \<Rightarrow> real \<Rightarrow> real \<Rightarrow> real \<Rightarrow> real \<Rightarrow> nat
     \<Rightarrow> point list" where
  "approximateArc arcSample x1 y1 rx ry phi fA fS x2 y2 segments =
     (if rx = 0 \<or> ry = 0 then [Pt x2 y2]
      else map (arcSample x1 y1 rx ry phi fA fS x2 y2 segments) [1..<Suc segments])"

text \<open>The four variables \<open>getPathPoints\<close> keeps while it walks the commands.\<close>

record flatState =
  currentX :: real
  currentY :: real
  startX :: real
  startY :: real

text \<open>
  One turn of the \<open>switch\<close>: the points a command pushes, and the updated variables.
  The points of the two kinds of curve are computed over \<open>real\<close>.
\<close>

fun flattenCmd :: "arc_sampler \<Rightarrow> nat \<Rightarrow> flatState \<Rightarrow> pathcmd \<Rightarrow> point list \<times> flatState" where
  "flattenCmd arcSample resolution st (MoveTo x y) =
     ([Pt x y], \<lparr>currentX = x, currentY = y, startX = x, startY = y\<rparr>)"
| "flattenCmd arcSample resolution st (LineTo x y) =
     ([Pt x y], st\<lparr>currentX := x, currentY := y\<rparr>)"
| "flattenCmd arcSample resolution st (HorizTo x) =
     ([Pt x (currentY st)], st\<lparr>currentX := x\<rparr>)"
| "flattenCmd arcSample resolution st (VertTo y) =
     ([Pt (currentX st) y], st\<lparr>currentY := y\<rparr>)"
| "flattenCmd arcSample resolution st (CubicTo cp1x cp1y cp2x cp2y endX endY) =
     (map (\<lambda>i. let t = real i / real resolution;
                   t2 = t * t;
                   t3 = t2 * t;
                   mt = 1 - t;
                   mt2 = mt * mt;
                   mt3 = mt2 * mt
               in Pt (mt3 * currentX st + 3 * mt2 * t * cp1x + 3 * mt * t2 * cp2x + t3 * endX)
                     (mt3 * currentY st + 3 * mt2 * t * cp1y + 3 * mt * t2 * cp2y + t3 * endY))
          [1..<Suc resolution],
      st\<lparr>currentX := endX, currentY := endY\<rparr>)"
| "flattenCmd arcSample resolution st (QuadTo qcpX qcpY qendX qendY) =
     (map (\<lambda>i. let t = real i / real resolution;
                   t1 = 1 - t
               in Pt (t1 * t1 * currentX st + 2 * t1 * t * qcpX + t * t * qendX)
                     (t1 * t1 * currentY st + 2 * t1 * t * qcpY + t * t * qendY))
          [1..<Suc resolution],
      st\<lparr>currentX := qendX, currentY := qendY\<rparr>)"
| "flattenCmd arcSample resolution st (ArcTo rx ry rotation largeArc sweep ax ay) =
     (approximateArc arcSample (currentX st) (currentY st) rx ry rotation largeArc sweep ax ay
        resolution,
      st\<lparr>currentX := ax, currentY := ay\<rparr>)"
| "flattenCmd arcSample resolution st ClosePath =
     (if \<bar>currentX st - startX st\<bar> > 0.01 \<or> \<bar>currentY st - startY st\<bar> > 0.01
      then [Pt (startX st) (startY st)] else [],
      st\<lparr>currentX := startX st, currentY := startY st\<rparr>)"
| "flattenCmd arcSample resolution st Unhandled = ([], st)"

fun flattenFrom :: "arc_sampler \<Rightarrow> nat \<Rightarrow> flatState \<Rightarrow> pathcmd list \<Rightarrow> point list" where
  "flattenFrom arcSample resolution st [] = []"
| "flattenFrom arcSample resolution st (cmd # cmds) =
     (let (pts, st') = flattenCmd arcSample resolution st cmd
      in pts @ flattenFrom arcSample resolution st' cmds)"

definition getPathPoints :: "arc_sampler \<Rightarrow> pathcmd list \<Rightarrow> nat \<Rightarrow> point list" where
  "getPathPoints arcSample pathString resolution =
     flattenFrom arcSample resolution \<lparr>currentX = 0, currentY = 0, startX = 0, startY = 0\<rparr>
       pathString"

section \<open>The DXF exporter (export-utils.js)\<close>

text \<open>The text is built from lines, each ended by a line feed.\<close>

definition dxfLines :: "string list \<Rightarrow> string" where
  "dxfLines ls = concat (map (\<lambda>l. l @ [CHR 0x0A]) ls)"

definition MM_TO_PIXELS :: real where
  "MM_TO_PIXELS = 3.7795275591"

definition digit :: "nat \<Rightarrow> char" where
  "digit d = ''0123456789'' ! d"

text \<open>The decimal digits of a natural number, as in \<open>${points.length}\<close>.\<close>

fun decimal :: "nat \<Rightarrow> string" where
  "decimal n = (if n < 10 then [digit n] else decimal (n div 10) @ [digit (n mod 10)])"

declare decimal.simps [simp del]

text \<open>
  \<open>v.toFixed(4)\<close> for a number \<open>v\<close> with \<open>\<bar>v\<bar> < 10^21\<close>: the sign, then the
  integer \<open>n\<close> nearest to \<open>\<bar>v\<bar> * 10^4\<close> (the larger one of two), written with at
  least five digits and a point before the last four.
\<close>

definition toFixed4 :: "real \<Rightarrow> string" where
  "toFixed4 v =
     (let n = nat \<lfloor>\<bar>v\<bar> * 10000 + 1 / 2\<rfloor>;
          m = decimal n;
          z = replicate (5 - length m) (CHR ''0'') @ m;
          k = length z - 4
      in (if v < 0 then ''-'' else []) @ take k z @ ''.'' @ drop k z)"

text \<open>
  The body of \<open>points.forEach\<close>.  For a point with NaN coordinates \<open>xMM\<close> and \<open>yMM\<close>
  are NaN as well, and \<open>toFixed(4)\<close> of NaN is the string \<open>NaN\<close>.
\<close>

definition vertexLines :: "real \<Rightarrow> point \<Rightarrow> string" where
  "vertexLines heightMM p =
     (case p of
        Pt x y \<Rightarrow>
          (let xMM = x / MM_TO_PIXELS;
               yMM = heightMM - (y / MM_TO_PIXELS)
           in dxfLines [''10'', toFixed4 xMM] @ dxfLines [''20'', toFixed4 yMM])
      | NaNPt \<Rightarrow> dxfLines [''10'', ''NaN''] @ dxfLines [''20'', ''NaN''])"

definition pathToPolyline :: "arc_sampler \<Rightarrow> pathcmd list \<Rightarrow> string \<Rightarrow> real \<Rightarrow> string" where
  "pathToPolyline arcSample pathString layer heightMM =
     (let points = getPathPoints arcSample pathString 16
      in if length points < 2 then []
         else dxfLines [''0'', ''LWPOLYLINE'']
              @ dxfLines [''100'', ''AcDbEntity'']
              @ dxfLines [''8'', layer]
              @ dxfLines [''100'', ''AcDbPolyline'']
              @ dxfLines [''90'', decimal (length points)]
              @ dxfLines [''70'', ''1'']
              @ concat (map (vertexLines heightMM) points))"

definition exportDXF :: "arc_sampler \<Rightarrow> puzzle \<Rightarrow> string" where
  "exportDXF arcSample puzzleData =
     (let widthMM = p_width puzzleData / MM_TO_PIXELS;
          heightMM = p_height puzzleData / MM_TO_PIXELS
      in dxfLines [''0'', ''SECTION'', ''2'', ''HEADER'']
         @ dxfLines [''9'', ''$ACADVER'', ''1'', ''AC1015'']
         @ dxfLines [''9'', ''$INSUNITS'', ''70'', ''4'']
         @ dxfLines [''9'', ''$EXTMIN'', ''10'', ''0.0'', ''20'', ''0.0'', ''30'', ''0.0'']
         @ dxfLines [''9'', ''$EXTMAX'', ''10'', toFixed4 widthMM, ''20'', toFixed4 heightMM,
                     ''30'', ''0.0'']
         @ dxfLines [''0'', ''ENDSEC'']
         @ dxfLines [''0'', ''SECTION'', ''2'', ''TABLES'']
         @ dxfLines [''0'', ''TABLE'', ''2'', ''LTYPE'', ''70'', ''1'']
         @ dxfLines [''0'', ''LTYPE'', ''2'', ''CONTINUOUS'', ''70'', ''0'', ''3'', ''Solid line'',
                     ''72'', ''65'', ''73'', ''0'', ''40'', ''0.0'']
         @ dxfLines [''0'', ''ENDTAB'']
         @ dxfLines [''0'', ''TABLE'', ''2'', ''LAYER'', ''70'', ''2'']
         @ dxfLines [''0'', ''LAYER'', ''2'', ''CUT'', ''70'', ''0'', ''62'', ''1'', ''6'',
                     ''CONTINUOUS'']
         @ dxfLines [''0'', ''LAYER'', ''2'', ''BORDER'', ''70'', ''0'', ''62'', ''5'', ''6'',
                     ''CONTINUOUS'']
         @ dxfLines [''0'', ''ENDTAB'']
         @ dxfLines [''0'', ''ENDSEC'']
         @ dxfLines [''0'', ''SECTION'', ''2'', ''ENTITIES'']
         @ concat (map (\<lambda>piece. pathToPolyline arcSample (path piece) ''CUT'' heightMM)
                     (pieces puzzleData))
         @ (if borderPath puzzleData \<noteq> []
            then pathToPolyline arcSample (borderPath puzzleData) ''BORDER'' heightMM else [])
         @ dxfLines [''0'', ''ENDSEC'']
         @ dxfLines [''0'', ''EOF''])"

section \<open>Auxiliary notions used in the statements\<close>

text \<open>The matrix entry emitted when \<open>random\<close> has just stored the seed \<open>s\<close>.\<close>

definition entry :: "int \<Rightarrow> int" where
  "entry s = (if real_of_int s / 2147483647 > 0.5 then 1 else - 1)"

text \<open>The letter of a path command.\<close>

fun letter :: "pathcmd \<Rightarrow> char" where
  "letter (MoveTo x y) = CHR ''M''"
| "letter (LineTo x y) = CHR ''L''"
| "letter (HorizTo x) = CHR ''H''"
| "letter (VertTo y) = CHR ''V''"
| "letter (CubicTo a b c d x y) = CHR ''C''"
| "letter (QuadTo a b x y) = CHR ''Q''"
| "letter (ArcTo rx ry rot la sw x y) = CHR ''A''"
| "letter ClosePath = CHR ''Z''"
| "letter Unhandled = CHR ''S''"

text \<open>
  The lines of one LWPOLYLINE entity, as the claim on the DXF output words them: the
  entity on its layer, the vertex count, the closed flag \<open>70 = 1\<close>, and per vertex
  \<open>xMM = xPx / 3.7795275591\<close> and \<open>yMM = heightMM - yPx / 3.7795275591\<close>, each with four
  decimals.  This holds for a vertex whose coordinates are numbers; for a vertex whose
  coordinates are NaN the two values are written \<open>NaN\<close>.
\<close>

definition polylineLines :: "string \<Rightarrow> real \<Rightarrow> point list \<Rightarrow> string list" where
  "polylineLines layer heightMM pts =
     [''0'', ''LWPOLYLINE'', ''100'', ''AcDbEntity'', ''8'', layer, ''100'', ''AcDbPolyline'',
      ''90'', decimal (length pts), ''70'', ''1'']
     @ concat (map (\<lambda>pt. case pt of
                        Pt x y \<Rightarrow> [''10'', toFixed4 (x / 3.7795275591),
                                   ''20'', toFixed4 (heightMM - y / 3.7795275591)]
                      | NaNPt \<Rightarrow> [''10'', ''NaN'', ''20'', ''NaN''])
                 pts)"

text \<open>A path that begins with a move followed by a line or an arc.\<close>

fun startsWithEdge :: "pathcmd list \<Rightarrow> bool" where
  "startsWithEdge (MoveTo a b # LineTo c d # rest) = True"
| "startsWithEdge (MoveTo a b # ArcTo rx ry rot la sw c d # rest) = True"
| "startsWithEdge cmds = False"

section \<open>The seeded generator: properties\<close>

lemma random_eq: "random g = (real_of_int (nextSeed (seed g)) / 2147483647, g\<lparr>seed := nextSeed (seed g)\<rparr>)"
  by (simp add: random_def Let_def)

lemma map_upt_Suc_shift: "map f [0..<Suc n] = f 0 # map (\<lambda>k. f (Suc k)) [0..<n]"
  by (simp only: upt_conv_Cons [of 0 "Suc n"] zero_less_Suc list.map map_Suc_upt [symmetric] list.map_comp comp_def if_True)

lemma tabRow_eq:
  "tabRow n g = (map (\<lambda>k. entry ((nextSeed ^^ (k + 1)) (seed g))) [0..<n],
                 g\<lparr>seed := (nextSeed ^^ n) (seed g)\<rparr>)"
proof (induction n arbitrary: g)
  case 0
  show ?case by simp
next
  case (Suc n)
  let ?g1 = "g\<lparr>seed := nextSeed (seed g)\<rparr>"
  have step: "tabRow (Suc n) g =
      (entry (nextSeed (seed g)) # fst (tabRow n ?g1), snd (tabRow n ?g1))"
    by (simp add: random_eq entry_def split: prod.split)
  show ?case
    unfolding step Suc.IH map_upt_Suc_shift
    by (simp add: funpow_swap1)
qed

lemma tabRows_eq:
  "tabRows n c g =
     (map (\<lambda>r. map (\<lambda>k. entry ((nextSeed ^^ (r * c + k + 1)) (seed g))) [0..<c]) [0..<n],
      g\<lparr>seed := (nextSeed ^^ (n * c)) (seed g)\<rparr>)"
proof (induction n arbitrary: g)
  case 0
  show ?case by simp
next
  case (Suc n)
  let ?g1 = "g\<lparr>seed := (nextSeed ^^ c) (seed g)\<rparr>"
  have step: "tabRows (Suc n) c g =
      (fst (tabRow c g) # fst (tabRows n c ?g1), snd (tabRows n c ?g1))"
    by (simp add: tabRow_eq split: prod.split)
  have shift: "(nextSeed ^^ Suc (r * c + k)) ((nextSeed ^^ c) s) = (nextSeed ^^ Suc (Suc r * c + k)) s" for r k s
  proof -
    have "Suc (Suc r * c + k) = Suc (r * c + k) + c" by simp
    then show ?thesis by (simp only: funpow_add comp_def)
  qed
  have fin: "(nextSeed ^^ (n * c)) ((nextSeed ^^ c) s) = (nextSeed ^^ (Suc n * c)) s" for s
  proof -
    have "Suc n * c = n * c + c" by simp
    then show ?thesis by (simp only: funpow_add comp_def)
  qed
  show ?case
    unfolding step Suc.IH map_upt_Suc_shift
    by (simp add: tabRow_eq shift fin del: funpow.simps mult_Suc)
qed

lemma generateTabMatrix_eq:
  "generateTabMatrix c r g =
     (map (\<lambda>i. map (\<lambda>k. entry ((nextSeed ^^ (i * nat c + k + 1)) (seed g))) [0..<nat c]) [0..<nat r],
      g\<lparr>seed := (nextSeed ^^ (nat r * nat c)) (seed g)\<rparr>)"
  by (simp add: generateTabMatrix_def tabRows_eq)

lemma roundNat_small: "n < 2 ^ 53 \<Longrightarrow> roundNat n = n"
  by (simp add: roundNat_def)

lemma toDouble_small: "\<bar>n\<bar> < 2 ^ 53 \<Longrightarrow> toDouble n = Some n"
proof -
  assume a: "\<bar>n\<bar> < 2 ^ 53"
  have "int (nat \<bar>n\<bar>) < 2 ^ 53" using a by simp
  then have b: "nat \<bar>n\<bar> < 2 ^ 53" by (metis of_nat_less_iff of_nat_numeral of_nat_power)
  then have r: "roundNat (nat \<bar>n\<bar>) = nat \<bar>n\<bar>" by (rule roundNat_small)
  have "(2::nat) ^ 53 \<le> 2 ^ 1024" by (rule power_increasing) simp_all
  with b have "\<not> (2::nat) ^ 1024 \<le> nat \<bar>n\<bar>" by (simp only: not_le order_less_le_trans)
  then show ?thesis using r by (simp add: toDouble_def Let_def del: power_strict_increasing_iff)
qed

lemma nextSeed_exact:
  assumes "0 \<le> s" "s * 1103515245 + 12345 < 2 ^ 53"
  shows "nextSeed s = (s * 1103515245 + 12345) mod 2 ^ 31"
proof -
  have p: "\<bar>s * 1103515245\<bar> < 2 ^ 53" using assms by simp
  have q: "\<bar>s * 1103515245 + 12345\<bar> < 2 ^ 53" using assms by simp
  show ?thesis
    by (simp only: nextSeed_def toDouble_small [OF p] toDouble_small [OF q] option.case mask31_def)
qed

lemma nextSeed_range: "0 \<le> nextSeed s \<and> nextSeed s < 2 ^ 31"
  by (simp add: nextSeed_def mask31_def split: option.split)

lemma matrix_dims:
  "length (fst (generateTabMatrix c r g)) = nat r"
  "i < nat r \<Longrightarrow> length (fst (generateTabMatrix c r g) ! i) = nat c"
  by (simp_all add: generateTabMatrix_eq)

lemma matrix_entry:
  "i < nat r \<Longrightarrow> k < nat c \<Longrightarrow>
     fst (generateTabMatrix c r g) ! i ! k = entry ((nextSeed ^^ (i * nat c + k + 1)) (seed g))"
  by (simp add: generateTabMatrix_eq)

lemma exact_seed_range:
  "(s * 1103515245 + 12345 < (2 :: int) ^ 53) = (s \<le> 8162278)"
proof
  assume a: "s * 1103515245 + 12345 < 2 ^ 53"
  show "s \<le> 8162278"
  proof (rule ccontr)
    assume "\<not> s \<le> 8162278"
    then have "8162279 \<le> s" by simp
    then have "8162279 * 1103515245 \<le> s * 1103515245" by (rule mult_right_mono) simp
    with a show False by simp
  qed
next
  assume "s \<le> 8162278"
  then have "s * 1103515245 \<le> 8162278 * 1103515245" by (rule mult_right_mono) simp
  then show "s * 1103515245 + 12345 < 2 ^ 53" by simp
qed

lemma entry_threshold: "(real_of_int s / 2147483647 > 0.5) = (s \<ge> 1073741824)"
proof -
  have "(real_of_int s / 2147483647 > 0.5) = (real_of_int (2147483647 :: int) < real_of_int (2 * s))"
    by (simp add: field_simps)
  also have "\<dots> = (2147483647 < 2 * s)" by (rule of_int_less_iff)
  also have "\<dots> = (s \<ge> 1073741824)" by linarith
  finally show ?thesis .
qed

lemma nextSeed_1: "nextSeed 1 = 1103527590"
  by (simp add: nextSeed_def toDouble_def roundNat_def mask31_def Let_def)

text \<open>
  Claim C3, as the code has it.  For a seed from 0 to 8162278 (while
  \<open>seed * 1103515245 + 12345\<close> stays below \<open>2^53\<close>, where the double arithmetic is exact)
  the state advances by \<open>seed' = (seed * 1103515245 + 12345) mod 2^31\<close>.  \<open>random\<close>
  returns \<open>seed' / (2^31 - 1)\<close>.  The entry at row \<open>r\<close>, column \<open>c\<close> of a matrix is
  drawn by call number \<open>r * cols + c + 1\<close> of \<open>random\<close>; it is \<open>+1\<close> exactly when the
  seed \<open>seed'\<close> stored by that call satisfies \<open>seed' / (2^31 - 1) > 0.5\<close> (that is,
  \<open>seed' \<ge> 2^30\<close>, lemma \<open>entry_threshold\<close>), and \<open>-1\<close> otherwise.  The whole matrix
  advances the seed \<open>rows * cols\<close> times.
\<close>

theorem tab_matrix_recurrence:
  "(0 \<le> seed g \<and> seed g \<le> 8162278 \<longrightarrow>
      seed (snd (random g)) = (seed g * 1103515245 + 12345) mod 2 ^ 31) \<and>
   fst (random g) = real_of_int (seed (snd (random g))) / (2 ^ 31 - 1) \<and>
   (r < nat rows \<and> c < nat cols \<longrightarrow>
      fst (generateTabMatrix cols rows g) ! r ! c =
        (if real_of_int ((nextSeed ^^ (r * nat cols + c + 1)) (seed g)) / (2 ^ 31 - 1) > 0.5
         then 1 else - 1)) \<and>
   seed (snd (generateTabMatrix cols rows g)) = (nextSeed ^^ (nat rows * nat cols)) (seed g)"
proof (intro conjI impI)
  assume "0 \<le> seed g \<and> seed g \<le> 8162278"
  then have "0 \<le> seed g" and "seed g * 1103515245 + 12345 < 2 ^ 53"
    by (simp_all add: exact_seed_range)
  then show "seed (snd (random g)) = (seed g * 1103515245 + 12345) mod 2 ^ 31"
    by (simp add: random_eq nextSeed_exact)
next
  show "fst (random g) = real_of_int (seed (snd (random g))) / (2 ^ 31 - 1)"
    by (simp add: random_eq)
next
  assume "r < nat rows \<and> c < nat cols"
  then show "fst (generateTabMatrix cols rows g) ! r ! c =
        (if real_of_int ((nextSeed ^^ (r * nat cols + c + 1)) (seed g)) / (2 ^ 31 - 1) > 0.5
         then 1 else - 1)"
    using matrix_entry [of r rows c cols g] by (simp add: entry_def)
next
  show "seed (snd (generateTabMatrix cols rows g)) = (nextSeed ^^ (nat rows * nat cols)) (seed g)"
    by (simp add: generateTabMatrix_eq)
qed

theorem tab_matrix_recurrence_witness:
  "(0 \<le> (1::int) \<and> (1::int) \<le> 8162278) \<and>
   seed (snd (random \<lparr>currentPuzzle = None, seed = 1\<rparr>)) = 1103527590 \<and>
   ((0::nat) < nat 1 \<and> (0::nat) < nat 1) \<and>
   fst (generateTabMatrix 1 1 \<lparr>currentPuzzle = None, seed = 1\<rparr>) ! 0 ! 0 = 1"
  using tab_matrix_recurrence [of "\<lparr>currentPuzzle = None, seed = 1\<rparr>" 0 1 0 1]
  by (simp add: nextSeed_1)

theorem tab_matrix_recurrence_counterexample:
  "seed (snd (random \<lparr>currentPuzzle = None, seed = 2147483647\<rparr>)) = 1043980800 \<and>
   (2147483647 * 1103515245 + 12345) mod 2 ^ 31 = (1043980748 :: int) \<and>
   generateTabMatrix 1 1 \<lparr>currentPuzzle = None, seed = 1014474371\<rparr>
     = ([[1]], \<lparr>currentPuzzle = None, seed = 1073741824\<rparr>) \<and>
   \<not> ((1073741824 :: real) / 2 ^ 31 > 0.5)"
proof -
  have a: "nextSeed 2147483647 = 1043980800"
    by (simp add: nextSeed_def toDouble_def roundNat_def bitlen.simps mask31_def Let_def)
  have b: "nextSeed 1014474371 = 1073741824"
    by (simp add: nextSeed_def toDouble_def roundNat_def bitlen.simps mask31_def Let_def)
  show ?thesis
    by (simp add: random_eq generateTabMatrix_eq a b entry_def)
qed

text \<open>
  Claim C4: determinism.  Two runs that call \<open>resetSeed(s)\<close> and then
  \<open>generateTabMatrix(cols, rows)\<close> produce the same matrix and leave the same seed,
  whatever the generator held before and whatever the clock shows.
\<close>

theorem reseed_determinism:
  "fst (generateTabMatrix cols rows (resetSeed now1 (Some s) g1))
     = fst (generateTabMatrix cols rows (resetSeed now2 (Some s) g2)) \<and>
   seed (snd (generateTabMatrix cols rows (resetSeed now1 (Some s) g1)))
     = seed (snd (generateTabMatrix cols rows (resetSeed now2 (Some s) g2)))"
  by (simp add: generateTabMatrix_eq resetSeed_def)

section \<open>The rectangular layout: properties\<close>

lemma grid_length: "length (concat (map (\<lambda>r. map (f r) [0..<m]) [0..<n])) = n * m"
  by (induction n) simp_all

lemma grid_nth:
  "r < n \<Longrightarrow> c < m \<Longrightarrow> concat (map (\<lambda>r. map (f r) [0..<m]) [0..<n]) ! (r * m + c) = f r c"
proof (induction n)
  case 0
  then show ?case by simp
next
  case (Suc n)
  show ?case
  proof (cases "r < n")
    case True
    have "r * m + c < n * m"
    proof -
      have "r * m + c < r * m + m" using Suc.prems by simp
      also have "\<dots> = Suc r * m" by simp
      also have "\<dots> \<le> n * m" using True by (intro mult_le_mono1) simp
      finally show ?thesis .
    qed
    then show ?thesis using Suc.IH [OF True Suc.prems(2)]
      by (simp add: nth_append grid_length)
  next
    case False
    with Suc.prems have "r = n" by simp
    then show ?thesis using Suc.prems by (simp add: nth_append grid_length)
  qed
qed

lemma grid_set:
  "set (concat (map (\<lambda>r. map (f r) [0..<m]) [0..<n])) = {f r c | r c. r < n \<and> c < m}"
  by auto blast

lemma grid_positions_distinct:
  "distinct (concat (map (\<lambda>r. map (RowCol r) [0..<m]) [0..<n]))"
proof (induction n)
  case 0
  show ?case by simp
next
  case (Suc n)
  have "distinct (map (RowCol n) [0..<m])"
    by (simp add: distinct_map inj_on_def)
  moreover have "set (concat (map (\<lambda>r. map (RowCol r) [0..<m]) [0..<n])) \<inter> set (map (RowCol n) [0..<m]) = {}"
    by auto
  ultimately show ?case using Suc.IH by simp
qed

lemma pos_rectPiece:
  "pos (rectPiece pieceType margin pw ph tabSize cols rows hT vT row col) = RowCol row col"
  by (simp add: rectPiece_def createGridPiece_def createClassicPiece_def Let_def)

lemma rect_pieces:
  "pieces (fst (generateRectangularPuzzle cols rows w h m pieceType lw form g)) =
     concat (map (\<lambda>row. map (rectPiece pieceType m ((w - 2 * m) / real_of_int cols)
                                ((h - 2 * m) / real_of_int rows)
                                (min ((w - 2 * m) / real_of_int cols) ((h - 2 * m) / real_of_int rows) * 0.22)
                                cols rows
                                (fst (generateTabMatrix (cols - 1) rows g))
                                (fst (generateTabMatrix cols (rows - 1)
                                        (snd (generateTabMatrix (cols - 1) rows g)))) row)
                           [0..<nat cols])
                 [0..<nat rows])"
  by (simp add: generateRectangularPuzzle_def Let_def split: prod.split)

lemma rect_positions:
  "map pos (pieces (fst (generateRectangularPuzzle cols rows w h m pieceType lw form g))) =
     concat (map (\<lambda>row. map (RowCol row) [0..<nat cols]) [0..<nat rows])"
  unfolding rect_pieces
  by (simp add: map_concat comp_def pos_rectPiece)

text \<open>
  Claim C2: for \<open>cols, rows \<ge> 1\<close> the rectangular layout returns exactly
  \<open>cols * rows\<close> pieces, no two of them at the same \<open>(row, col)\<close>, and every piece has
  \<open>0 \<le> col < cols\<close> and \<open>0 \<le> row < rows\<close>.
\<close>

theorem rect_piece_count:
  assumes "1 \<le> cols" and "1 \<le> rows"
  shows "int (length (pieces (fst (generateRectangularPuzzle cols rows w h m pieceType lw form g))))
           = cols * rows \<and>
         distinct (map pos (pieces (fst (generateRectangularPuzzle cols rows w h m pieceType lw form g)))) \<and>
         (\<forall>pc \<in> set (pieces (fst (generateRectangularPuzzle cols rows w h m pieceType lw form g))).
            \<exists>r c. pos pc = RowCol r c \<and> 0 \<le> int c \<and> int c < cols \<and> 0 \<le> int r \<and> int r < rows)"
proof (intro conjI)
  let ?p = "fst (generateRectangularPuzzle cols rows w h m pieceType lw form g)"
  have "length (pieces ?p) = length (map pos (pieces ?p))" by simp
  also have "\<dots> = nat rows * nat cols" unfolding rect_positions by (rule grid_length)
  finally have "int (length (pieces ?p)) = int (nat rows) * int (nat cols)" by simp
  then show "int (length (pieces ?p)) = cols * rows" using assms by (simp add: mult.commute)
  show "distinct (map pos (pieces ?p))"
    unfolding rect_positions by (rule grid_positions_distinct)
  show "\<forall>pc \<in> set (pieces ?p).
            \<exists>r c. pos pc = RowCol r c \<and> 0 \<le> int c \<and> int c < cols \<and> 0 \<le> int r \<and> int r < rows"
  proof
    fix pc assume "pc \<in> set (pieces ?p)"
    then have "pos pc \<in> set (map pos (pieces ?p))" by simp
    then obtain r c where "pos pc = RowCol r c" "r < nat rows" "c < nat cols"
      unfolding rect_positions grid_set by blast
    then have "pos pc = RowCol r c \<and> 0 \<le> int c \<and> int c < cols \<and> 0 \<le> int r \<and> int r < rows"
      by (simp add: zless_nat_eq_int_zless)
    then show "\<exists>r c. pos pc = RowCol r c \<and> 0 \<le> int c \<and> int c < cols \<and> 0 \<le> int r \<and> int r < rows"
      by blast
  qed
qed

theorem rect_piece_count_witness:
  "(1::int) \<le> 3 \<and> (1::int) \<le> 2 \<and>
   int (length (pieces (fst (generateRectangularPuzzle 3 2 800 600 20 ''classic'' 1.5 ''rectangular''
                               \<lparr>currentPuzzle = None, seed = 1\<rparr>)))) = 6 \<and>
   distinct (map pos (pieces (fst (generateRectangularPuzzle 3 2 800 600 20 ''classic'' 1.5 ''rectangular''
                               \<lparr>currentPuzzle = None, seed = 1\<rparr>))))"
  using rect_piece_count [of 3 2 800 600 20 "''classic''" "1.5" "''rectangular''"
                             "\<lparr>currentPuzzle = None, seed = 1\<rparr>"]
  by simp

lemma horizontal_cell:
  assumes "int row < rows" "int col + 1 < cols"
  shows "row < length (fst (generateTabMatrix (cols - 1) rows g))"
    and "col < length (fst (generateTabMatrix (cols - 1) rows g) ! row)"
    and "fst (generateTabMatrix (cols - 1) rows g) ! row ! col \<in> {1, - 1}"
proof -
  have r: "row < nat rows" and c: "col < nat (cols - 1)" using assms by simp_all
  show "row < length (fst (generateTabMatrix (cols - 1) rows g))"
    using r by (simp add: matrix_dims)
  show "col < length (fst (generateTabMatrix (cols - 1) rows g) ! row)"
    using r c by (simp add: matrix_dims)
  show "fst (generateTabMatrix (cols - 1) rows g) ! row ! col \<in> {1, - 1}"
    using r c by (simp add: matrix_entry entry_def)
qed

lemma vertical_cell:
  assumes "int row + 1 < rows" "int col < cols"
  shows "row < length (fst (generateTabMatrix cols (rows - 1) g))"
    and "col < length (fst (generateTabMatrix cols (rows - 1) g) ! row)"
    and "fst (generateTabMatrix cols (rows - 1) g) ! row ! col \<in> {1, - 1}"
proof -
  have r: "row < nat (rows - 1)" and c: "col < nat cols" using assms by simp_all
  show "row < length (fst (generateTabMatrix cols (rows - 1) g))"
    using r by (simp add: matrix_dims)
  show "col < length (fst (generateTabMatrix cols (rows - 1) g) ! row)"
    using r c by (simp add: matrix_dims)
  show "fst (generateTabMatrix cols (rows - 1) g) ! row ! col \<in> {1, - 1}"
    using r c by (simp add: matrix_entry entry_def)
qed

lemma rect_piece_at:
  assumes "int row < rows" "int col < cols"
  shows "pieces (fst (generateRectangularPuzzle cols rows w h m pieceType lw form g)) ! (row * nat cols + col) =
     rectPiece pieceType m ((w - 2 * m) / real_of_int cols) ((h - 2 * m) / real_of_int rows)
       (min ((w - 2 * m) / real_of_int cols) ((h - 2 * m) / real_of_int rows) * 0.22)
       cols rows
       (fst (generateTabMatrix (cols - 1) rows g))
       (fst (generateTabMatrix cols (rows - 1) (snd (generateTabMatrix (cols - 1) rows g))))
       row col"
proof -
  have "row < nat rows" "col < nat cols" using assms by simp_all
  then show ?thesis unfolding rect_pieces by (rule grid_nth)
qed

lemma seed_steps:
  "nextSeed 1103527590 = 377401600"
  "nextSeed 377401600 = 333417792"
  "nextSeed 333417792 = 314102912"
  by (simp_all add: nextSeed_def toDouble_def roundNat_def bitlen.simps mask31_def Let_def)

lemma matrices_from_seed_1:
  "generateTabMatrix 1 2 \<lparr>currentPuzzle = None, seed = 1\<rparr>
     = ([[1], [- 1]], \<lparr>currentPuzzle = None, seed = 377401600\<rparr>)"
  "generateTabMatrix 2 1 \<lparr>currentPuzzle = None, seed = 377401600\<rparr>
     = ([[- 1, - 1]], \<lparr>currentPuzzle = None, seed = 314102912\<rparr>)"
  by (simp_all add: generateTabMatrix_def eval_nat_numeral random_eq nextSeed_1 seed_steps)

text \<open>
  Claim C1: the interlock law.  With \<open>horizontalTabs\<close> and \<open>verticalTabs\<close> the two
  matrices the layout draws, every internal vertical seam is fed from one cell
  \<open>horizontalTabs[row][col]\<close>, which exists and is \<open>+1\<close> or \<open>-1\<close>: it is the
  \<open>rightTab\<close> of piece \<open>(row, col)\<close> and, negated, the \<open>leftTab\<close> of piece
  \<open>(row, col + 1)\<close>.  Every internal horizontal seam is fed from
  \<open>verticalTabs[row][col]\<close>: negated it is the \<open>bottomTab\<close> of piece \<open>(row, col)\<close>,
  and as it stands the \<open>topTab\<close> of piece \<open>(row + 1, col)\<close>.  In a classic layout the
  piece at \<open>(row, col)\<close> is the one \<open>createClassicPiece\<close> builds from these polarities.
\<close>

theorem interlock_law:
  assumes "generateTabMatrix (cols - 1) rows g = (horizontalTabs, g1)"
      and "generateTabMatrix cols (rows - 1) g1 = (verticalTabs, g2)"
  shows "(int row < rows \<and> int col + 1 < cols \<longrightarrow>
            row < length horizontalTabs \<and> col < length (horizontalTabs ! row) \<and>
            horizontalTabs ! row ! col \<in> {1, - 1} \<and>
            rightTab (pieceTabs cols rows horizontalTabs verticalTabs row col)
              = horizontalTabs ! row ! col \<and>
            leftTab (pieceTabs cols rows horizontalTabs verticalTabs row (col + 1))
              = - (horizontalTabs ! row ! col)) \<and>
         (int row + 1 < rows \<and> int col < cols \<longrightarrow>
            row < length verticalTabs \<and> col < length (verticalTabs ! row) \<and>
            verticalTabs ! row ! col \<in> {1, - 1} \<and>
            bottomTab (pieceTabs cols rows horizontalTabs verticalTabs row col)
              = - (verticalTabs ! row ! col) \<and>
            topTab (pieceTabs cols rows horizontalTabs verticalTabs (row + 1) col)
              = verticalTabs ! row ! col) \<and>
         (int row < rows \<and> int col < cols \<and> pieceType \<noteq> ''grid'' \<longrightarrow>
            pieces (fst (generateRectangularPuzzle cols rows w h m pieceType lw form g))
                ! (row * nat cols + col)
              = createClassicPiece (m + real col * ((w - 2 * m) / real_of_int cols))
                  (m + real row * ((h - 2 * m) / real_of_int rows))
                  ((w - 2 * m) / real_of_int cols) ((h - 2 * m) / real_of_int rows)
                  (min ((w - 2 * m) / real_of_int cols) ((h - 2 * m) / real_of_int rows) * 0.22)
                  (pieceTabs cols rows horizontalTabs verticalTabs row col) row col)"
proof -
  have hT: "horizontalTabs = fst (generateTabMatrix (cols - 1) rows g)"
    and g1: "g1 = snd (generateTabMatrix (cols - 1) rows g)"
    using assms(1) by simp_all
  have vT: "verticalTabs = fst (generateTabMatrix cols (rows - 1) g1)"
    using assms(2) by simp
  show ?thesis
  proof (intro conjI impI)
    assume a: "int row < rows \<and> int col + 1 < cols"
    then have r: "int row < rows" and c: "int col + 1 < cols" by simp_all
    show "row < length horizontalTabs" unfolding hT using r c by (rule horizontal_cell)
    show "col < length (horizontalTabs ! row)" unfolding hT using r c by (rule horizontal_cell)
    show "horizontalTabs ! row ! col \<in> {1, - 1}" unfolding hT using r c by (rule horizontal_cell)
    show "rightTab (pieceTabs cols rows horizontalTabs verticalTabs row col) = horizontalTabs ! row ! col"
      using c by (simp add: pieceTabs_def)
    show "leftTab (pieceTabs cols rows horizontalTabs verticalTabs row (col + 1)) = - (horizontalTabs ! row ! col)"
      by (simp add: pieceTabs_def)
  next
    assume a: "int row + 1 < rows \<and> int col < cols"
    then have r: "int row + 1 < rows" and c: "int col < cols" by simp_all
    show "row < length verticalTabs" unfolding vT using r c by (rule vertical_cell)
    show "col < length (verticalTabs ! row)" unfolding vT using r c by (rule vertical_cell)
    show "verticalTabs ! row ! col \<in> {1, - 1}" unfolding vT using r c by (rule vertical_cell)
    show "bottomTab (pieceTabs cols rows horizontalTabs verticalTabs row col) = - (verticalTabs ! row ! col)"
      using r by (simp add: pieceTabs_def)
    show "topTab (pieceTabs cols rows horizontalTabs verticalTabs (row + 1) col) = verticalTabs ! row ! col"
      by (simp add: pieceTabs_def)
  next
    assume a: "int row < rows \<and> int col < cols \<and> pieceType \<noteq> ''grid''"
    then show "pieces (fst (generateRectangularPuzzle cols rows w h m pieceType lw form g))
                ! (row * nat cols + col)
              = createClassicPiece (m + real col * ((w - 2 * m) / real_of_int cols))
                  (m + real row * ((h - 2 * m) / real_of_int rows))
                  ((w - 2 * m) / real_of_int cols) ((h - 2 * m) / real_of_int rows)
                  (min ((w - 2 * m) / real_of_int cols) ((h - 2 * m) / real_of_int rows) * 0.22)
                  (pieceTabs cols rows horizontalTabs verticalTabs row col) row col"
      unfolding hT vT g1 by (simp add: rect_piece_at rectPiece_def Let_def)
  qed
qed

theorem interlock_law_witness:
  "generateTabMatrix (2 - 1) 2 \<lparr>currentPuzzle = None, seed = 1\<rparr>
     = ([[1], [- 1]], \<lparr>currentPuzzle = None, seed = 377401600\<rparr>) \<and>
   generateTabMatrix 2 (2 - 1) \<lparr>currentPuzzle = None, seed = 377401600\<rparr>
     = ([[- 1, - 1]], \<lparr>currentPuzzle = None, seed = 314102912\<rparr>) \<and>
   (int 0 < 2 \<and> int 0 + 1 < 2) \<and> ''classic'' \<noteq> ''grid'' \<and>
   rightTab (pieceTabs 2 2 [[1], [- 1]] [[- 1, - 1]] 0 0) = 1 \<and>
   leftTab (pieceTabs 2 2 [[1], [- 1]] [[- 1, - 1]] 0 (0 + 1)) = - 1 \<and>
   bottomTab (pieceTabs 2 2 [[1], [- 1]] [[- 1, - 1]] 0 0) = 1 \<and>
   topTab (pieceTabs 2 2 [[1], [- 1]] [[- 1, - 1]] (0 + 1) 0) = - 1 \<and>
   pieces (fst (generateRectangularPuzzle 2 2 100 100 10 ''classic'' 1.5 ''rectangular''
                  \<lparr>currentPuzzle = None, seed = 1\<rparr>)) ! 0
     = createClassicPiece 10 10 40 40 8.8
         \<lparr>topTab = 0, rightTab = 1, bottomTab = 1, leftTab = 0\<rparr> 0 0"
proof -
  have a: "generateTabMatrix (2 - 1) 2 \<lparr>currentPuzzle = None, seed = 1\<rparr>
     = ([[1], [- 1]], \<lparr>currentPuzzle = None, seed = 377401600\<rparr>)"
    by (simp add: matrices_from_seed_1)
  have b: "generateTabMatrix 2 (2 - 1) \<lparr>currentPuzzle = None, seed = 377401600\<rparr>
     = ([[- 1, - 1]], \<lparr>currentPuzzle = None, seed = 314102912\<rparr>)"
    by (simp add: matrices_from_seed_1)
  note t = interlock_law [OF a b, where row = 0 and col = 0 and pieceType = "''classic''"
             and w = 100 and h = 100 and m = 10 and lw = "1.5" and form = "''rectangular''"]
  have p: "pieceTabs 2 2 [[1], [- 1]] [[- 1, - 1]] 0 0
           = \<lparr>topTab = 0, rightTab = 1, bottomTab = 1, leftTab = 0\<rparr>"
    by (simp add: pieceTabs_def)
  have c: "pieces (fst (generateRectangularPuzzle 2 2 100 100 10 ''classic'' 1.5 ''rectangular''
                  \<lparr>currentPuzzle = None, seed = 1\<rparr>)) ! 0
     = createClassicPiece 10 10 40 40 8.8
         \<lparr>topTab = 0, rightTab = 1, bottomTab = 1, leftTab = 0\<rparr> 0 0"
    using t [THEN conjunct2, THEN conjunct2] by (simp add: p)
  show ?thesis
    using t [THEN conjunct1] t [THEN conjunct2, THEN conjunct1] a b c by simp
qed

section \<open>The first generator: the same law\<close>

lemma tabRow1_props:
  "length (fst (tabRow1 rnd n k)) = n \<and> set (fst (tabRow1 rnd n k)) \<subseteq> {1, - 1}"
  by (induction n arbitrary: k) (auto simp: Let_def case_prod_beta)

lemma tabRows1_props:
  "length (fst (tabRows1 rnd n c k)) = n \<and>
   (\<forall>r \<in> set (fst (tabRows1 rnd n c k)). length r = c \<and> set r \<subseteq> {1, - 1})"
proof (induction n arbitrary: k)
  case 0
  show ?case by simp
next
  case (Suc n)
  show ?case
    using Suc.IH [of "snd (tabRow1 rnd c k)"] tabRow1_props [of rnd c k]
    by (auto simp: Let_def case_prod_beta)
qed

lemma matrix1_cell:
  assumes "i < nat r" "j < nat c"
  shows "i < length (fst (generateTabMatrix1 rnd c r k))"
    and "j < length (fst (generateTabMatrix1 rnd c r k) ! i)"
    and "fst (generateTabMatrix1 rnd c r k) ! i ! j \<in> {1, - 1}"
proof -
  let ?M = "fst (generateTabMatrix1 rnd c r k)"
  have len: "length ?M = nat r"
    and rows: "\<forall>row \<in> set ?M. length row = nat c \<and> set row \<subseteq> {1, - 1}"
    using tabRows1_props [of rnd "nat r" "nat c" k] by (simp_all add: generateTabMatrix1_def)
  show i: "i < length ?M" using assms(1) len by simp
  then have m: "?M ! i \<in> set ?M" by simp
  with rows have l: "length (?M ! i) = nat c" and s: "set (?M ! i) \<subseteq> {1, - 1}" by blast+
  show j: "j < length (?M ! i)" using assms(2) l by simp
  then have "?M ! i ! j \<in> set (?M ! i)" by simp
  with s show "?M ! i ! j \<in> {1, - 1}" by blast
qed

text \<open>
  puzzle-generator.js computes \<open>hasTopTab\<close>, \<open>hasRightTab\<close>, \<open>hasBottomTab\<close> and
  \<open>hasLeftTab\<close> by the same four expressions, from matrices drawn with
  \<open>Math.random()\<close>: the law of claim C1 holds there as well.
\<close>

lemma interlock_law_first_generator:
  assumes "generateTabMatrix1 rnd (cols - 1) rows k = (horizontalTabs, k1)"
      and "generateTabMatrix1 rnd cols (rows - 1) k1 = (verticalTabs, k2)"
  shows "(int row < rows \<and> int col + 1 < cols \<longrightarrow>
            row < length horizontalTabs \<and> col < length (horizontalTabs ! row) \<and>
            horizontalTabs ! row ! col \<in> {1, - 1} \<and>
            rightTab (pieceTabs cols rows horizontalTabs verticalTabs row col)
              = horizontalTabs ! row ! col \<and>
            leftTab (pieceTabs cols rows horizontalTabs verticalTabs row (col + 1))
              = - (horizontalTabs ! row ! col)) \<and>
         (int row + 1 < rows \<and> int col < cols \<longrightarrow>
            row < length verticalTabs \<and> col < length (verticalTabs ! row) \<and>
            verticalTabs ! row ! col \<in> {1, - 1} \<and>
            bottomTab (pieceTabs cols rows horizontalTabs verticalTabs row col)
              = - (verticalTabs ! row ! col) \<and>
            topTab (pieceTabs cols rows horizontalTabs verticalTabs (row + 1) col)
              = verticalTabs ! row ! col) \<and>
         (int row < rows \<and> int col < cols \<longrightarrow>
            pieces1 (fst (generateRectangularPuzzle1 rnd cols rows w h m k)) ! (row * nat cols + col)
              = createJigsawPiece (m + real col * ((w - 2 * m) / real_of_int cols))
                  (m + real row * ((h - 2 * m) / real_of_int rows))
                  ((w - 2 * m) / real_of_int cols) ((h - 2 * m) / real_of_int rows)
                  (min ((w - 2 * m) / real_of_int cols) ((h - 2 * m) / real_of_int rows) * 0.2)
                  (pieceTabs cols rows horizontalTabs verticalTabs row col) row col)"
proof -
  have hT: "horizontalTabs = fst (generateTabMatrix1 rnd (cols - 1) rows k)"
    and k1: "k1 = snd (generateTabMatrix1 rnd (cols - 1) rows k)"
    using assms(1) by simp_all
  have vT: "verticalTabs = fst (generateTabMatrix1 rnd cols (rows - 1) k1)"
    using assms(2) by simp
  show ?thesis
  proof (intro conjI impI)
    assume a: "int row < rows \<and> int col + 1 < cols"
    then have r: "row < nat rows" and c: "col < nat (cols - 1)" by linarith+
    show "row < length horizontalTabs" unfolding hT using r c by (rule matrix1_cell)
    show "col < length (horizontalTabs ! row)" unfolding hT using r c by (rule matrix1_cell)
    show "horizontalTabs ! row ! col \<in> {1, - 1}" unfolding hT using r c by (rule matrix1_cell)
    show "rightTab (pieceTabs cols rows horizontalTabs verticalTabs row col) = horizontalTabs ! row ! col"
      using a by (simp add: pieceTabs_def)
    show "leftTab (pieceTabs cols rows horizontalTabs verticalTabs row (col + 1)) = - (horizontalTabs ! row ! col)"
      by (simp add: pieceTabs_def)
  next
    assume a: "int row + 1 < rows \<and> int col < cols"
    then have r: "row < nat (rows - 1)" and c: "col < nat cols" by linarith+
    show "row < length verticalTabs" unfolding vT using r c by (rule matrix1_cell)
    show "col < length (verticalTabs ! row)" unfolding vT using r c by (rule matrix1_cell)
    show "verticalTabs ! row ! col \<in> {1, - 1}" unfolding vT using r c by (rule matrix1_cell)
    show "bottomTab (pieceTabs cols rows horizontalTabs verticalTabs row col) = - (verticalTabs ! row ! col)"
      using a by (simp add: pieceTabs_def)
    show "topTab (pieceTabs cols rows horizontalTabs verticalTabs (row + 1) col) = verticalTabs ! row ! col"
      by (simp add: pieceTabs_def)
  next
    assume a: "int row < rows \<and> int col < cols"
    then have r: "row < nat rows" and c: "col < nat cols" by linarith+
    show "pieces1 (fst (generateRectangularPuzzle1 rnd cols rows w h m k)) ! (row * nat cols + col)
              = createJigsawPiece (m + real col * ((w - 2 * m) / real_of_int cols))
                  (m + real row * ((h - 2 * m) / real_of_int rows))
                  ((w - 2 * m) / real_of_int cols) ((h - 2 * m) / real_of_int rows)
                  (min ((w - 2 * m) / real_of_int cols) ((h - 2 * m) / real_of_int rows) * 0.2)
                  (pieceTabs cols rows horizontalTabs verticalTabs row col) row col"
      unfolding hT vT k1
      by (simp add: generateRectangularPuzzle1_def Let_def case_prod_beta grid_nth [OF r c])
  qed
qed

section \<open>The layout call: properties\<close>

lemma rect_seed_only:
  "map_prod id seed (generateRectangularPuzzle cols rows w h m pieceType lw form g) =
   map_prod id seed (generateRectangularPuzzle cols rows w h m pieceType lw form
                       \<lparr>currentPuzzle = None, seed = seed g\<rparr>)"
  by (simp add: generateRectangularPuzzle_def generateTabMatrix_eq Let_def)

lemma circ_seed_only:
  "map_sum id (map_prod id seed) (generateCircularPuzzle segments rings w h m pieceType lw g) =
   map_sum id (map_prod id seed) (generateCircularPuzzle segments rings w h m pieceType lw
                                    \<lparr>currentPuzzle = None, seed = seed g\<rparr>)"
  by (simp add: generateCircularPuzzle_def generateTabMatrix_eq Let_def split: sum.split)

lemma generate_seed_only:
  "map_sum id (map_prod id seed) (generate now g opts) =
   map_sum id (map_prod id seed) (generate now \<lparr>currentPuzzle = None, seed = now\<rparr> opts)"
proof (cases "opt_form opts = ''circular''")
  case True
  show ?thesis
    using circ_seed_only [of _ _ _ _ _ _ _ "g\<lparr>seed := now\<rparr>"]
    by (simp add: generate_def resetSeed_def Let_def True)
next
  case False
  show ?thesis
    using rect_seed_only [of _ _ _ _ _ _ _ _ "g\<lparr>seed := now\<rparr>"]
    by (simp add: generate_def resetSeed_def Let_def False)
qed

lemma funpow_twice: "(f ^^ b) ((f ^^ a) s) = (f ^^ (a + b)) s"
  by (simp add: funpow_add add.commute [of a b])

lemma rect_seed_left:
  "snd (generateRectangularPuzzle cols rows w h m pieceType lw form g) =
     g\<lparr>seed := (nextSeed ^^ (nat (rows - 1) * nat cols + nat rows * nat (cols - 1))) (seed g)\<rparr>"
  by (simp add: generateRectangularPuzzle_def generateTabMatrix_eq Let_def funpow_twice add.commute
           del: funpow.simps)

lemma circ_seed_left:
  "generateCircularPuzzle segments rings w h m pieceType lw g = Inr (p, g') \<Longrightarrow>
     g' = g\<lparr>seed := (nextSeed ^^ (nat (rings - 1) * nat segments + nat rings * nat (segments - 1)))
                       (seed g)\<rparr>"
  by (auto simp add: generateCircularPuzzle_def generateTabMatrix_eq Let_def funpow_twice
           simp del: funpow.simps split: sum.splits)

lemma generate_unfolded:
  "generate now g opts =
     (if opt_form opts = ''circular'' then
        generateCircularPuzzle (opt_cols opts) (opt_rows opts) (opt_width opts) (opt_height opts)
          (opt_margin opts) (opt_pieceType opts)
          (case opt_lineWidth opts of None \<Rightarrow> 1.5 | Some v \<Rightarrow> v) (g\<lparr>seed := now\<rparr>)
      else
        Inr (generateRectangularPuzzle (opt_cols opts) (opt_rows opts)
               (if opt_form opts = ''square'' then min (opt_width opts) (opt_height opts)
                else opt_width opts)
               (if opt_form opts = ''square'' then min (opt_width opts) (opt_height opts)
                else opt_height opts)
               (opt_margin opts) (opt_pieceType opts)
               (case opt_lineWidth opts of None \<Rightarrow> 1.5 | Some v \<Rightarrow> v) (opt_form opts)
               (g\<lparr>seed := now\<rparr>)))"
  by (simp add: generate_def resetSeed_def Let_def)

lemma generate_seed_left:
  assumes "generate now g opts = Inr (p, g')"
  shows "g' = g\<lparr>seed := (nextSeed ^^ (nat (opt_rows opts - 1) * nat (opt_cols opts)
                                     + nat (opt_rows opts) * nat (opt_cols opts - 1))) now\<rparr>"
proof (cases "opt_form opts = ''circular''")
  case True
  with assms have "generateCircularPuzzle (opt_cols opts) (opt_rows opts) (opt_width opts)
      (opt_height opts) (opt_margin opts) (opt_pieceType opts)
      (case opt_lineWidth opts of None \<Rightarrow> 1.5 | Some v \<Rightarrow> v) (g\<lparr>seed := now\<rparr>) = Inr (p, g')"
    by (simp add: generate_unfolded)
  from circ_seed_left [OF this] show ?thesis by simp
next
  case False
  with assms have "g' = snd (generateRectangularPuzzle (opt_cols opts) (opt_rows opts)
               (if opt_form opts = ''square'' then min (opt_width opts) (opt_height opts)
                else opt_width opts)
               (if opt_form opts = ''square'' then min (opt_width opts) (opt_height opts)
                else opt_height opts)
               (opt_margin opts) (opt_pieceType opts)
               (case opt_lineWidth opts of None \<Rightarrow> 1.5 | Some v \<Rightarrow> v) (opt_form opts)
               (g\<lparr>seed := now\<rparr>))"
    by (simp add: generate_unfolded prod_eq_iff)
  then show ?thesis by (simp add: rect_seed_left)
qed

text \<open>
  Claim C10.  \<open>resetSeed()\<close>, called with no argument, stores the clock value \<open>now\<close>,
  and \<open>generate\<close> calls it before anything else reads the seed: a call of \<open>generate\<close>
  is the layout run from the generator whose seed is the clock value, the circular
  layout for the form \<open>circular\<close> and the rectangular one for every other form.
  Whenever the call returns a puzzle, the generator it leaves behind differs from the
  one it found in the seed only, and that seed is \<open>nextSeed\<close> applied to the clock
  value once per matrix entry drawn, \<open>(rows - 1) * cols + rows * (cols - 1)\<close> times.
  So, for a fixed clock value, the result (the puzzle or the error, and the seed left
  behind) is the same for any two generator states \<open>g1\<close>, \<open>g2\<close>, whatever seed each
  held before the call; the options object has no field that carries a seed.
\<close>

theorem generate_reseeds:
  "resetSeed now None g = g\<lparr>seed := now\<rparr> \<and>
   generate now g opts =
     (if opt_form opts = ''circular'' then
        generateCircularPuzzle (opt_cols opts) (opt_rows opts) (opt_width opts) (opt_height opts)
          (opt_margin opts) (opt_pieceType opts)
          (case opt_lineWidth opts of None \<Rightarrow> 1.5 | Some v \<Rightarrow> v) (g\<lparr>seed := now\<rparr>)
      else
        Inr (generateRectangularPuzzle (opt_cols opts) (opt_rows opts)
               (if opt_form opts = ''square'' then min (opt_width opts) (opt_height opts)
                else opt_width opts)
               (if opt_form opts = ''square'' then min (opt_width opts) (opt_height opts)
                else opt_height opts)
               (opt_margin opts) (opt_pieceType opts)
               (case opt_lineWidth opts of None \<Rightarrow> 1.5 | Some v \<Rightarrow> v) (opt_form opts)
               (g\<lparr>seed := now\<rparr>))) \<and>
   (generate now g opts = Inr (p, g') \<longrightarrow>
      g' = g\<lparr>seed := (nextSeed ^^ (nat (opt_rows opts - 1) * nat (opt_cols opts)
                                    + nat (opt_rows opts) * nat (opt_cols opts - 1))) now\<rparr>) \<and>
   map_sum id (map_prod id seed) (generate now g1 opts)
     = map_sum id (map_prod id seed) (generate now g2 opts)"
proof (intro conjI impI)
  show "resetSeed now None g = g\<lparr>seed := now\<rparr>"
    by (simp add: resetSeed_def)
  show "generate now g opts =
     (if opt_form opts = ''circular'' then
        generateCircularPuzzle (opt_cols opts) (opt_rows opts) (opt_width opts) (opt_height opts)
          (opt_margin opts) (opt_pieceType opts)
          (case opt_lineWidth opts of None \<Rightarrow> 1.5 | Some v \<Rightarrow> v) (g\<lparr>seed := now\<rparr>)
      else
        Inr (generateRectangularPuzzle (opt_cols opts) (opt_rows opts)
               (if opt_form opts = ''square'' then min (opt_width opts) (opt_height opts)
                else opt_width opts)
               (if opt_form opts = ''square'' then min (opt_width opts) (opt_height opts)
                else opt_height opts)
               (opt_margin opts) (opt_pieceType opts)
               (case opt_lineWidth opts of None \<Rightarrow> 1.5 | Some v \<Rightarrow> v) (opt_form opts)
               (g\<lparr>seed := now\<rparr>)))"
    by (rule generate_unfolded)
  show "map_sum id (map_prod id seed) (generate now g1 opts)
     = map_sum id (map_prod id seed) (generate now g2 opts)"
    by (simp only: generate_seed_only [of now g1] generate_seed_only [of now g2])
next
  assume "generate now g opts = Inr (p, g')"
  then show "g' = g\<lparr>seed := (nextSeed ^^ (nat (opt_rows opts - 1) * nat (opt_cols opts)
                                    + nat (opt_rows opts) * nat (opt_cols opts - 1))) now\<rparr>"
    by (rule generate_seed_left)
qed

theorem generate_reseeds_witness:
  "generate 1 \<lparr>currentPuzzle = None, seed = 7\<rparr>
     \<lparr>opt_form = ''rectangular'', opt_pieceType = ''classic'', opt_cols = 2, opt_rows = 1,
      opt_width = 100, opt_height = 100, opt_margin = 10, opt_lineWidth = None\<rparr>
   = Inr (fst (generateRectangularPuzzle 2 1 100 100 10 ''classic'' 1.5 ''rectangular''
                 \<lparr>currentPuzzle = None, seed = 1\<rparr>),
          \<lparr>currentPuzzle = None, seed = 1103527590\<rparr>)"
proof -
  let ?g = "\<lparr>currentPuzzle = None, seed = 7\<rparr>"
  let ?o = "\<lparr>opt_form = ''rectangular'', opt_pieceType = ''classic'', opt_cols = 2, opt_rows = 1,
      opt_width = 100, opt_height = 100, opt_margin = 10, opt_lineWidth = None\<rparr>"
  let ?r = "generateRectangularPuzzle 2 1 100 100 10 ''classic'' 1.5 ''rectangular''
              \<lparr>currentPuzzle = None, seed = 1\<rparr>"
  note t = generate_reseeds [of 1 ?g ?o "fst ?r" "snd ?r"]
  have a: "generate 1 ?g ?o = Inr (fst ?r, snd ?r)"
    using t [THEN conjunct2, THEN conjunct1] by simp
  have "snd ?r = ?g\<lparr>seed := (nextSeed ^^ (nat (1 - 1) * nat 2 + nat 1 * nat (2 - 1))) 1\<rparr>"
    using t [THEN conjunct2, THEN conjunct2, THEN conjunct1] a by simp
  then have b: "snd ?r = \<lparr>currentPuzzle = None, seed = 1103527590\<rparr>"
    by (simp add: nextSeed_1)
  show ?thesis using a b by (simp add: prod_eq_iff)
qed

section \<open>Circular pieces: properties\<close>

text \<open>
  Claim C8, as the code has it.  \<open>createCircularGridPiece\<close> emits, for every inner
  radius other than 0, the annular sector whose inner arc carries sweep flag 1 and whose
  outer arc carries sweep flag 0, both with the large-arc flag 1 exactly when
  \<open>endAngle - startAngle > pi\<close>; for inner radius 0 it emits the pie wedge: the center,
  the radial edge to the outer start point, the outer arc (sweep flag 1), and the close
  back to the center.  \<open>createCircularPiece\<close> emits the same annular sector only from
  inner radius 1 on, and the pie wedge for every inner radius below 1.
\<close>

theorem circular_piece_arcs:
  "(innerRadius \<noteq> 0 \<longrightarrow>
      path (createCircularGridPiece cx cy innerRadius outerRadius sa ea ring seg) =
        [MoveTo (cx + cos sa * innerRadius) (cy + sin sa * innerRadius),
         ArcTo innerRadius innerRadius 0 (if ea - sa > pi then 1 else 0) 1
           (cx + cos ea * innerRadius) (cy + sin ea * innerRadius),
         LineTo (cx + cos ea * outerRadius) (cy + sin ea * outerRadius),
         ArcTo outerRadius outerRadius 0 (if ea - sa > pi then 1 else 0) 0
           (cx + cos sa * outerRadius) (cy + sin sa * outerRadius),
         ClosePath]) \<and>
   (innerRadius = 0 \<longrightarrow>
      path (createCircularGridPiece cx cy innerRadius outerRadius sa ea ring seg) =
        [MoveTo cx cy,
         LineTo (cx + cos sa * outerRadius) (cy + sin sa * outerRadius),
         ArcTo outerRadius outerRadius 0 (if ea - sa > pi then 1 else 0) 1
           (cx + cos ea * outerRadius) (cy + sin ea * outerRadius),
         ClosePath]) \<and>
   (1 \<le> innerRadius \<longrightarrow>
      path (createCircularPiece cx cy innerRadius outerRadius sa ea ring seg) =
        [MoveTo (cx + cos sa * innerRadius) (cy + sin sa * innerRadius),
         ArcTo innerRadius innerRadius 0 (if ea - sa > pi then 1 else 0) 1
           (cx + cos ea * innerRadius) (cy + sin ea * innerRadius),
         LineTo (cx + cos ea * outerRadius) (cy + sin ea * outerRadius),
         ArcTo outerRadius outerRadius 0 (if ea - sa > pi then 1 else 0) 0
           (cx + cos sa * outerRadius) (cy + sin sa * outerRadius),
         ClosePath]) \<and>
   (innerRadius < 1 \<longrightarrow>
      path (createCircularPiece cx cy innerRadius outerRadius sa ea ring seg) =
        [MoveTo cx cy,
         LineTo (cx + cos sa * outerRadius) (cy + sin sa * outerRadius),
         ArcTo outerRadius outerRadius 0 (if ea - sa > pi then 1 else 0) 1
           (cx + cos ea * outerRadius) (cy + sin ea * outerRadius),
         ClosePath])"
  by (simp add: createCircularGridPiece_def createCircularPiece_def Let_def)

theorem circular_piece_arcs_witness:
  "(2::real) \<noteq> 0 \<and> (1::real) \<le> 2 \<and>
   path (createCircularGridPiece 0 0 2 3 0 pi 1 0) =
     [MoveTo 2 0, ArcTo 2 2 0 0 1 (- 2) 0, LineTo (- 3) 0, ArcTo 3 3 0 0 0 3 0, ClosePath] \<and>
   path (createCircularPiece 0 0 2 3 0 pi 1 0) =
     [MoveTo 2 0, ArcTo 2 2 0 0 1 (- 2) 0, LineTo (- 3) 0, ArcTo 3 3 0 0 0 3 0, ClosePath] \<and>
   (0::real) = 0 \<and> (0::real) < 1 \<and>
   path (createCircularGridPiece 0 0 0 3 0 pi 0 0) =
     [MoveTo 0 0, LineTo 3 0, ArcTo 3 3 0 0 1 (- 3) 0, ClosePath] \<and>
   path (createCircularPiece 0 0 0 3 0 pi 0 0) =
     [MoveTo 0 0, LineTo 3 0, ArcTo 3 3 0 0 1 (- 3) 0, ClosePath]"
  using circular_piece_arcs [of 2 0 0 3 0 pi 1 0] circular_piece_arcs [of 0 0 0 3 0 pi 0 0]
  by simp

theorem circular_piece_arcs_counterexample:
  "(0::real) < 1 / 2 \<and>
   path (createCircularPiece 0 0 (1 / 2) 2 0 pi 1 0) =
     [MoveTo 0 0, LineTo 2 0, ArcTo 2 2 0 0 1 (- 2) 0, ClosePath]"
  by (simp add: createCircularPiece_def Let_def)

text \<open>
  Claim C9: the result of \<open>createCircularClassicPiece\<close> (path, position and bounds) does
  not depend on \<open>tabSize\<close>, \<open>innerTab\<close> or \<open>outerTab\<close>.  Its path is
  \<open>M L A L Z\<close> for inner radius 0 and \<open>M A L A L Z\<close> otherwise: the radial edges are
  single straight lines.
\<close>

theorem circular_classic_ignores_tabs:
  "createCircularClassicPiece cx cy innerRadius outerRadius sa ea tabSize innerTab outerTab
       ring seg totalSegments
     = createCircularClassicPiece cx cy innerRadius outerRadius sa ea tabSize' innerTab' outerTab'
         ring seg totalSegments \<and>
   map letter (path (createCircularClassicPiece cx cy innerRadius outerRadius sa ea tabSize
                       innerTab outerTab ring seg totalSegments))
     = (if innerRadius = 0 then ''MLALZ'' else ''MALALZ'')"
  by (simp add: createCircularClassicPiece_def Let_def)

theorem circular_classic_ignores_tabs_witness:
  "createCircularClassicPiece 300 300 0 100 0 pi 18 (Some 0) (Some 1) 0 0 8
     = createCircularClassicPiece 300 300 0 100 0 pi 36 None (Some (- 1)) 0 0 8 \<and>
   map letter (path (createCircularClassicPiece 300 300 0 100 0 pi 18 (Some 0) (Some 1) 0 0 8))
     = ''MLALZ''"
proof -
  note inst = circular_classic_ignores_tabs [of 300 300 0 100 0 pi 18 "Some 0" "Some 1" 0 0 8 36
                None "Some (- 1)"]
  have a: "createCircularClassicPiece 300 300 0 100 0 pi 18 (Some 0) (Some 1) 0 0 8
     = createCircularClassicPiece 300 300 0 100 0 pi 36 None (Some (- 1)) 0 0 8"
    by (rule inst [THEN conjunct1])
  have b: "map letter (path (createCircularClassicPiece 300 300 0 100 0 pi 18 (Some 0) (Some 1) 0 0 8))
     = ''MLALZ''"
    using inst [THEN conjunct2] by simp
  show ?thesis using a b by (intro conjI)
qed

section \<open>The layout call: failures\<close>













lemma circ_collect:
  "generateCircularPuzzle segments rings w h m pieceType lw g =
     (case collect (concat (map (\<lambda>ring. map (circPiece pieceType (w / 2) (h / 2)
            ((min w h / 2 - m) / real_of_int rings) ((min w h / 2 - m) / real_of_int rings * 0.18)
            segments rings (fst (generateTabMatrix segments (rings - 1) g)) ring)
          [0..<nat segments]) [0..<nat rings])) of
        Inl e \<Rightarrow> Inl e
      | Inr ps \<Rightarrow>
          Inr (\<lparr>pieces = ps,
                borderPath = [MoveTo (w / 2 + (min w h / 2 - m)) (h / 2),
                    ArcTo (min w h / 2 - m) (min w h / 2 - m) 0 1 1 (w / 2 - (min w h / 2 - m)) (h / 2),
                    ArcTo (min w h / 2 - m) (min w h / 2 - m) 0 1 1 (w / 2 + (min w h / 2 - m)) (h / 2),
                    ClosePath],
                p_width = w, p_height = h, p_cols = segments, p_rows = rings,
                p_form = ''circular'', p_pieceType = pieceType, p_lineWidth = lw, p_margin = m,
                p_center = Some (w / 2, h / 2, min w h / 2 - m)\<rparr>,
               snd (generateTabMatrix (segments - 1) rings
                      (snd (generateTabMatrix segments (rings - 1) g)))))"
  by (simp add: generateCircularPuzzle_def Let_def case_prod_beta)





section \<open>Flattening: properties\<close>

lemma approximateArc_degenerate:
  "rx = 0 \<or> ry = 0 \<Longrightarrow> approximateArc arc x1 y1 rx ry phi fA fS x2 y2 N = [Pt x2 y2]"
  unfolding approximateArc_def by (rule if_P)

lemma approximateArc_length:
  "rx \<noteq> 0 \<Longrightarrow> ry \<noteq> 0 \<Longrightarrow> length (approximateArc arc x1 y1 rx ry phi fA fS x2 y2 N) = N"
  by (simp add: approximateArc_def)

lemma last_map_upt: "0 < N \<Longrightarrow> last (map f [1..<Suc N]) = f N"
  by (simp add: last_map)

lemma bezier_last:
  assumes "0 < N"
  shows "last (fst (flattenCmd arc N st (CubicTo a b c d x y))) = Pt x y"
    and "last (fst (flattenCmd arc N st (QuadTo a b x y))) = Pt x y"
  using assms by (simp_all add: last_map_upt Let_def)

text \<open>
  Claim C6, as the code has it.  A \<open>LineTo\<close> emits exactly one point, its endpoint.  A
  \<open>CubicTo\<close> or a \<open>QuadTo\<close> with resolution \<open>N\<close> emits exactly \<open>N\<close> points, and
  for \<open>N \<ge> 1\<close> the last one is the endpoint: at the last turn \<open>t = N / N\<close> is 1, and
  the weights of the current point and of the control points are 0.  An \<open>ArcTo\<close> with
  both radii other than 0 emits exactly \<open>N\<close> points, whatever \<open>arcSample\<close> makes of
  their coordinates.  An \<open>ArcTo\<close> with \<open>rx = 0\<close> or \<open>ry = 0\<close> emits exactly one
  point, the endpoint, at every resolution.
\<close>

theorem flatten_counts:
  "fst (flattenCmd arc N st (LineTo x y)) = [Pt x y] \<and>
   length (fst (flattenCmd arc N st (CubicTo a b c d x y))) = N \<and>
   length (fst (flattenCmd arc N st (QuadTo a b x y))) = N \<and>
   (0 < N \<longrightarrow> last (fst (flattenCmd arc N st (CubicTo a b c d x y))) = Pt x y \<and>
              last (fst (flattenCmd arc N st (QuadTo a b x y))) = Pt x y) \<and>
   (rx \<noteq> 0 \<and> ry \<noteq> 0 \<longrightarrow>
      length (fst (flattenCmd arc N st (ArcTo rx ry rot fA fS x y))) = N) \<and>
   (rx = 0 \<or> ry = 0 \<longrightarrow>
      fst (flattenCmd arc N st (ArcTo rx ry rot fA fS x y)) = [Pt x y])"
proof (intro conjI impI)
  show "fst (flattenCmd arc N st (LineTo x y)) = [Pt x y]" by simp
  show "length (fst (flattenCmd arc N st (CubicTo a b c d x y))) = N" by simp
  show "length (fst (flattenCmd arc N st (QuadTo a b x y))) = N" by simp
next
  assume "0 < N"
  then show "last (fst (flattenCmd arc N st (CubicTo a b c d x y))) = Pt x y"
    and "last (fst (flattenCmd arc N st (QuadTo a b x y))) = Pt x y"
    by (rule bezier_last)+
next
  assume "rx \<noteq> 0 \<and> ry \<noteq> 0"
  then show "length (fst (flattenCmd arc N st (ArcTo rx ry rot fA fS x y))) = N"
    by (simp add: approximateArc_length)
next
  assume "rx = 0 \<or> ry = 0"
  then show "fst (flattenCmd arc N st (ArcTo rx ry rot fA fS x y)) = [Pt x y]"
    by (simp add: approximateArc_degenerate)
qed

theorem flatten_counts_witness:
  "\<forall>arc.
     (0::nat) < 16 \<and>
     length (fst (flattenCmd arc 16 \<lparr>currentX = 0, currentY = 0, startX = 0, startY = 0\<rparr>
                    (CubicTo 1 2 3 4 10 0))) = 16 \<and>
     last (fst (flattenCmd arc 16 \<lparr>currentX = 0, currentY = 0, startX = 0, startY = 0\<rparr>
                  (CubicTo 1 2 3 4 10 0))) = Pt 10 0 \<and>
     last (fst (flattenCmd arc 16 \<lparr>currentX = 0, currentY = 0, startX = 0, startY = 0\<rparr>
                  (QuadTo 1 2 10 0))) = Pt 10 0 \<and>
     ((5::real) \<noteq> 0 \<and> (5::real) \<noteq> 0) \<and>
     length (fst (flattenCmd arc 16 \<lparr>currentX = 0, currentY = 0, startX = 0, startY = 0\<rparr>
                    (ArcTo 5 5 0 0 1 10 0))) = 16 \<and>
     ((0::real) = 0 \<or> (5::real) = 0) \<and>
     fst (flattenCmd arc 16 \<lparr>currentX = 0, currentY = 0, startX = 0, startY = 0\<rparr>
            (ArcTo 0 5 0 0 1 10 0)) = [Pt 10 0]"
proof
  fix arc :: arc_sampler
  let ?st = "\<lparr>currentX = 0, currentY = 0, startX = 0, startY = 0\<rparr>"
  note a = flatten_counts [of arc 16 ?st 10 0 1 2 3 4 5 5 0 0 1]
  note c = flatten_counts [of arc 16 ?st 10 0 1 2 3 4 0 5 0 0 1]
  have 0: "length (fst (flattenCmd arc 16 ?st (CubicTo 1 2 3 4 10 0))) = 16" using a by simp
  have 1: "last (fst (flattenCmd arc 16 ?st (CubicTo 1 2 3 4 10 0))) = Pt 10 0" using a by simp
  have 2: "last (fst (flattenCmd arc 16 ?st (QuadTo 1 2 10 0))) = Pt 10 0" using a by simp
  have 3: "length (fst (flattenCmd arc 16 ?st (ArcTo 5 5 0 0 1 10 0))) = 16" using a by simp
  have 4: "fst (flattenCmd arc 16 ?st (ArcTo 0 5 0 0 1 10 0)) = [Pt 10 0]" using c by simp
  show "(0::nat) < 16 \<and>
     length (fst (flattenCmd arc 16 ?st (CubicTo 1 2 3 4 10 0))) = 16 \<and>
     last (fst (flattenCmd arc 16 ?st (CubicTo 1 2 3 4 10 0))) = Pt 10 0 \<and>
     last (fst (flattenCmd arc 16 ?st (QuadTo 1 2 10 0))) = Pt 10 0 \<and>
     ((5::real) \<noteq> 0 \<and> (5::real) \<noteq> 0) \<and>
     length (fst (flattenCmd arc 16 ?st (ArcTo 5 5 0 0 1 10 0))) = 16 \<and>
     ((0::real) = 0 \<or> (5::real) = 0) \<and>
     fst (flattenCmd arc 16 ?st (ArcTo 0 5 0 0 1 10 0)) = [Pt 10 0]"
    using 0 1 2 3 4 by simp
qed

theorem flatten_counts_counterexample:
  "\<forall>arc. length (fst (flattenCmd arc 16 \<lparr>currentX = 0, currentY = 0, startX = 0, startY = 0\<rparr>
                         (ArcTo 0 5 0 0 1 10 0))) = 1"
  by (simp add: approximateArc_degenerate)

section \<open>The DXF exporter: properties\<close>

lemma decimal_examples:
  "decimal 0 = ''0''" "decimal 5 = ''5''" "decimal 16 = ''16''" "decimal 19 = ''19''"
  by (simp_all add: decimal.simps digit_def)

lemma dxfLines_append: "dxfLines (xs @ ys) = dxfLines xs @ dxfLines ys"
  by (simp add: dxfLines_def)

lemma dxfLines_Nil: "dxfLines [] = []"
  by (simp add: dxfLines_def)

lemma dxfLines_concat: "dxfLines (concat xss) = concat (map dxfLines xss)"
  by (induction xss) (simp_all add: dxfLines_append dxfLines_Nil)

lemma vertexLines_eq:
  "vertexLines h pt =
     dxfLines (case pt of
                 Pt x y \<Rightarrow> [''10'', toFixed4 (x / 3.7795275591), ''20'', toFixed4 (h - y / 3.7795275591)]
               | NaNPt \<Rightarrow> [''10'', ''NaN'', ''20'', ''NaN''])"
  by (cases pt) (simp_all add: vertexLines_def MM_TO_PIXELS_def Let_def dxfLines_def)

lemma pathToPolyline_eq:
  "pathToPolyline arc cmds layer h =
     dxfLines (if length (getPathPoints arc cmds 16) < 2 then []
               else polylineLines layer h (getPathPoints arc cmds 16))"
proof -
  have v: "concat (map (vertexLines h) pts) =
             dxfLines (concat (map (\<lambda>pt. case pt of
                        Pt x y \<Rightarrow> [''10'', toFixed4 (x / 3.7795275591),
                                   ''20'', toFixed4 (h - y / 3.7795275591)]
                      | NaNPt \<Rightarrow> [''10'', ''NaN'', ''20'', ''NaN'']) pts))" for pts
  proof -
    have e: "vertexLines h = (\<lambda>pt. dxfLines (case pt of
                        Pt x y \<Rightarrow> [''10'', toFixed4 (x / 3.7795275591),
                                   ''20'', toFixed4 (h - y / 3.7795275591)]
                      | NaNPt \<Rightarrow> [''10'', ''NaN'', ''20'', ''NaN'']))"
      by (rule ext) (rule vertexLines_eq)
    show ?thesis by (simp only: e dxfLines_concat list.map_comp comp_def)
  qed
  show ?thesis
    unfolding pathToPolyline_def Let_def polylineLines_def v dxfLines_append
    by (simp add: dxfLines_def)
qed

lemma flat_two:
  "startsWithEdge cmds \<Longrightarrow> 2 \<le> length (getPathPoints arc cmds 16)"
proof (induction cmds rule: startsWithEdge.induct)
  case (1 a b c d rest)
  show ?case by (simp add: getPathPoints_def)
next
  case (2 a b rx ry rot la sw c d rest)
  have "1 \<le> length (approximateArc arc a b rx ry rot la sw c d 16)"
  proof (cases "rx = 0 \<or> ry = 0")
    case True
    then show ?thesis by (simp add: approximateArc_degenerate)
  next
    case False
    then show ?thesis by (simp add: approximateArc_length)
  qed
  then show ?case by (simp add: getPathPoints_def)
qed simp_all

lemma createEdgePath_head:
  "\<exists>c d rest. createEdgePath x1 y1 x2 y2 ts dir e = LineTo c d # rest"
  by (simp add: createEdgePath_def Let_def)

lemma rectPiece_starts:
  "startsWithEdge (path (rectPiece pieceType m pw ph ts cols rows hT vT row col))"
proof (cases "pieceType = ''grid''")
  case True
  then show ?thesis by (simp add: rectPiece_def Let_def createGridPiece_def)
next
  case False
  obtain c d rest where
    "createEdgePath (m + real col * pw) (m + real row * ph) (m + real col * pw + pw)
       (m + real row * ph) ts (topTab (pieceTabs cols rows hT vT row col)) ''top'' = LineTo c d # rest"
    using createEdgePath_head by blast
  then show ?thesis using False by (simp add: rectPiece_def Let_def createClassicPiece_def)
qed

lemma circPiece_starts:
  "circPiece pieceType cx cy rw ts segments rings radialTabs ring segment = Inr pc
     \<Longrightarrow> startsWithEdge (path pc)"
  by (auto simp: circPiece_def Let_def createCircularGridPiece_def createCircularClassicPiece_def
           split: if_splits sum.splits)

lemma collect_Inr: "collect xs = Inr vs \<Longrightarrow> v \<in> set vs \<Longrightarrow> Inr v \<in> set xs"
  by (induction xs arbitrary: vs) (auto split: sum.splits)

lemma grid_setE:
  assumes "x \<in> set (concat (map (\<lambda>r. map (f r) [0..<m]) [0..<n]))"
  obtains r c where "x = f r c"
  using assms unfolding grid_set by blast

lemma generated_paths:
  assumes "generate now g opts = Inr (pz, g')"
  shows "(\<forall>pc \<in> set (pieces pz). startsWithEdge (path pc)) \<and> startsWithEdge (borderPath pz)"
proof (cases "opt_form opts = ''circular''")
  case False
  with assms have pz: "pz = fst (generateRectangularPuzzle (opt_cols opts) (opt_rows opts)
        (if opt_form opts = ''square'' then min (opt_width opts) (opt_height opts) else opt_width opts)
        (if opt_form opts = ''square'' then min (opt_width opts) (opt_height opts) else opt_height opts)
        (opt_margin opts) (opt_pieceType opts)
        (case opt_lineWidth opts of None \<Rightarrow> 1.5 | Some v \<Rightarrow> v) (opt_form opts)
        (resetSeed now None g))"
    by (auto simp: generate_def Let_def)
  have b: "startsWithEdge (borderPath pz)"
    unfolding pz by (simp add: generateRectangularPuzzle_def Let_def case_prod_beta)
  have "startsWithEdge (path pc)" if "pc \<in> set (pieces pz)" for pc
  proof -
    from that obtain row col where "pc = rectPiece (opt_pieceType opts) (opt_margin opts)
        (((if opt_form opts = ''square'' then min (opt_width opts) (opt_height opts) else opt_width opts)
            - 2 * opt_margin opts) / real_of_int (opt_cols opts))
        (((if opt_form opts = ''square'' then min (opt_width opts) (opt_height opts) else opt_height opts)
            - 2 * opt_margin opts) / real_of_int (opt_rows opts))
        (min (((if opt_form opts = ''square'' then min (opt_width opts) (opt_height opts) else opt_width opts)
            - 2 * opt_margin opts) / real_of_int (opt_cols opts))
             (((if opt_form opts = ''square'' then min (opt_width opts) (opt_height opts) else opt_height opts)
            - 2 * opt_margin opts) / real_of_int (opt_rows opts)) * 0.22)
        (opt_cols opts) (opt_rows opts)
        (fst (generateTabMatrix (opt_cols opts - 1) (opt_rows opts) (resetSeed now None g)))
        (fst (generateTabMatrix (opt_cols opts) (opt_rows opts - 1)
                (snd (generateTabMatrix (opt_cols opts - 1) (opt_rows opts) (resetSeed now None g)))))
        row col"
      unfolding pz rect_pieces grid_set by blast
    then show ?thesis by (simp only: rectPiece_starts)
  qed
  with b show ?thesis by blast
next
  case True
  with assms have c: "generateCircularPuzzle (opt_cols opts) (opt_rows opts) (opt_width opts)
      (opt_height opts) (opt_margin opts) (opt_pieceType opts)
      (case opt_lineWidth opts of None \<Rightarrow> 1.5 | Some v \<Rightarrow> v) (resetSeed now None g) = Inr (pz, g')"
    by (simp add: generate_def Let_def)
  define xs where "xs = concat (map (\<lambda>ring. map (circPiece (opt_pieceType opts) (opt_width opts / 2)
            (opt_height opts / 2)
            ((min (opt_width opts) (opt_height opts) / 2 - opt_margin opts) / real_of_int (opt_rows opts))
            ((min (opt_width opts) (opt_height opts) / 2 - opt_margin opts) / real_of_int (opt_rows opts) * 0.18)
            (opt_cols opts) (opt_rows opts)
            (fst (generateTabMatrix (opt_cols opts) (opt_rows opts - 1) (resetSeed now None g))) ring)
          [0..<nat (opt_cols opts)]) [0..<nat (opt_rows opts)])"
  from c have "(case collect xs of Inl e \<Rightarrow> Inl e | Inr ps \<Rightarrow> Inr (\<lparr>pieces = ps,
        borderPath = [MoveTo (opt_width opts / 2 + (min (opt_width opts) (opt_height opts) / 2 - opt_margin opts)) (opt_height opts / 2),
                    ArcTo (min (opt_width opts) (opt_height opts) / 2 - opt_margin opts) (min (opt_width opts) (opt_height opts) / 2 - opt_margin opts) 0 1 1 (opt_width opts / 2 - (min (opt_width opts) (opt_height opts) / 2 - opt_margin opts)) (opt_height opts / 2),
                    ArcTo (min (opt_width opts) (opt_height opts) / 2 - opt_margin opts) (min (opt_width opts) (opt_height opts) / 2 - opt_margin opts) 0 1 1 (opt_width opts / 2 + (min (opt_width opts) (opt_height opts) / 2 - opt_margin opts)) (opt_height opts / 2),
                    ClosePath],
        p_width = opt_width opts, p_height = opt_height opts, p_cols = opt_cols opts, p_rows = opt_rows opts,
        p_form = ''circular'', p_pieceType = opt_pieceType opts,
        p_lineWidth = (case opt_lineWidth opts of None \<Rightarrow> 1.5 | Some v \<Rightarrow> v), p_margin = opt_margin opts,
        p_center = Some (opt_width opts / 2, opt_height opts / 2, min (opt_width opts) (opt_height opts) / 2 - opt_margin opts)\<rparr>,
       snd (generateTabMatrix (opt_cols opts - 1) (opt_rows opts)
              (snd (generateTabMatrix (opt_cols opts) (opt_rows opts - 1) (resetSeed now None g)))))) = Inr (pz, g')"
    unfolding circ_collect xs_def .
  then obtain ps where ps: "collect xs = Inr ps" and pzp: "pieces pz = ps"
    and pzb: "startsWithEdge (borderPath pz)"
    by (cases "collect xs") auto
  have "startsWithEdge (path pc)" if "pc \<in> set (pieces pz)" for pc
  proof -
    from that have "Inr pc \<in> set xs" unfolding pzp by (rule collect_Inr [OF ps])
    then obtain ring segment where "Inr pc = circPiece (opt_pieceType opts) (opt_width opts / 2)
            (opt_height opts / 2)
            ((min (opt_width opts) (opt_height opts) / 2 - opt_margin opts) / real_of_int (opt_rows opts))
            ((min (opt_width opts) (opt_height opts) / 2 - opt_margin opts) / real_of_int (opt_rows opts) * 0.18)
            (opt_cols opts) (opt_rows opts)
            (fst (generateTabMatrix (opt_cols opts) (opt_rows opts - 1) (resetSeed now None g))) ring segment"
      unfolding xs_def by (rule grid_setE)
    then have "circPiece (opt_pieceType opts) (opt_width opts / 2)
            (opt_height opts / 2)
            ((min (opt_width opts) (opt_height opts) / 2 - opt_margin opts) / real_of_int (opt_rows opts))
            ((min (opt_width opts) (opt_height opts) / 2 - opt_margin opts) / real_of_int (opt_rows opts) * 0.18)
            (opt_cols opts) (opt_rows opts)
            (fst (generateTabMatrix (opt_cols opts) (opt_rows opts - 1) (resetSeed now None g))) ring segment
          = Inr pc"
      by (rule sym)
    then show ?thesis by (rule circPiece_starts)
  qed
  with pzb show ?thesis by blast
qed

lemma getPathPoints_Nil: "getPathPoints arc [] n = []"
  by (simp add: getPathPoints_def)

lemma exportDXF_lines:
  "exportDXF arc p =
     dxfLines
       ([''0'', ''SECTION'', ''2'', ''HEADER'',
         ''9'', ''$ACADVER'', ''1'', ''AC1015'',
         ''9'', ''$INSUNITS'', ''70'', ''4'',
         ''9'', ''$EXTMIN'', ''10'', ''0.0'', ''20'', ''0.0'', ''30'', ''0.0'',
         ''9'', ''$EXTMAX'', ''10'', toFixed4 (p_width p / 3.7795275591),
                             ''20'', toFixed4 (p_height p / 3.7795275591), ''30'', ''0.0'',
         ''0'', ''ENDSEC'',
         ''0'', ''SECTION'', ''2'', ''TABLES'',
         ''0'', ''TABLE'', ''2'', ''LTYPE'', ''70'', ''1'',
         ''0'', ''LTYPE'', ''2'', ''CONTINUOUS'', ''70'', ''0'', ''3'', ''Solid line'',
                ''72'', ''65'', ''73'', ''0'', ''40'', ''0.0'',
         ''0'', ''ENDTAB'',
         ''0'', ''TABLE'', ''2'', ''LAYER'', ''70'', ''2'',
         ''0'', ''LAYER'', ''2'', ''CUT'', ''70'', ''0'', ''62'', ''1'', ''6'', ''CONTINUOUS'',
         ''0'', ''LAYER'', ''2'', ''BORDER'', ''70'', ''0'', ''62'', ''5'', ''6'', ''CONTINUOUS'',
         ''0'', ''ENDTAB'',
         ''0'', ''ENDSEC'',
         ''0'', ''SECTION'', ''2'', ''ENTITIES'']
        @ concat (map (\<lambda>pc. if length (getPathPoints arc (path pc) 16) < 2 then []
                            else polylineLines ''CUT'' (p_height p / 3.7795275591)
                                   (getPathPoints arc (path pc) 16))
                    (pieces p))
        @ (if length (getPathPoints arc (borderPath p) 16) < 2 then []
           else polylineLines ''BORDER'' (p_height p / 3.7795275591)
                  (getPathPoints arc (borderPath p) 16))
        @ [''0'', ''ENDSEC'', ''0'', ''EOF''])"
proof -
  have b: "(if borderPath p \<noteq> []
            then pathToPolyline arc (borderPath p) ''BORDER'' (p_height p / 3.7795275591) else [])
           = pathToPolyline arc (borderPath p) ''BORDER'' (p_height p / 3.7795275591)"
    by (simp add: pathToPolyline_def getPathPoints_def)
  have e: "(\<lambda>piece. pathToPolyline arc (path piece) ''CUT'' (p_height p / 3.7795275591))
           = (\<lambda>pc. dxfLines (if length (getPathPoints arc (path pc) 16) < 2 then []
                            else polylineLines ''CUT'' (p_height p / 3.7795275591)
                                   (getPathPoints arc (path pc) 16)))"
    by (rule ext) (rule pathToPolyline_eq)
  have c: "concat (map (\<lambda>pc. dxfLines (f pc)) ps) = dxfLines (concat (map f ps))" for f ps
    by (simp only: dxfLines_concat list.map_comp comp_def)
  show ?thesis
    unfolding exportDXF_def Let_def MM_TO_PIXELS_def b e c pathToPolyline_eq dxfLines_append
    by (simp add: dxfLines_def getPathPoints_Nil)
qed

lemma toFixed4_values:
  "toFixed4 0 = ''0.0000''"
  "toFixed4 (- (1 / 3)) = ''-0.3333''"
  "toFixed4 (100 / 3.7795275591) = ''26.4583''"
  "toFixed4 (10 / 3.7795275591) = ''2.6458''"
  "toFixed4 (90 / 3.7795275591) = ''23.8125''"
  "toFixed4 (100 / 3.7795275591 - 10 / 3.7795275591) = ''23.8125''"
  "toFixed4 (100 / 3.7795275591 - 90 / 3.7795275591) = ''2.6458''"
  "toFixed4 (5000 / 3.7795275591) = ''1322.9167''"
  "toFixed4 (100 / 3.7795275591 - 50 / 3.7795275591) = ''13.2292''"
  "toFixed4 (100 / 3.7795275591 - 20 / 3.7795275591) = ''21.1667''"
proof -
  have f0: "\<lfloor>\<bar>0 :: real\<bar> * 10000 + 1 / 2\<rfloor> = 0" by simp
  show "toFixed4 0 = ''0.0000''"
    unfolding toFixed4_def Let_def f0 by (simp add: decimal.simps digit_def eval_nat_numeral)
  have f1: "\<lfloor>\<bar>- (1 / 3) :: real\<bar> * 10000 + 1 / 2\<rfloor> = 3333"
    by (rule floor_unique) simp_all
  show "toFixed4 (- (1 / 3)) = ''-0.3333''"
    unfolding toFixed4_def Let_def f1 by (simp add: decimal.simps digit_def)
  have f2: "\<lfloor>\<bar>100 / 3.7795275591 :: real\<bar> * 10000 + 1 / 2\<rfloor> = 264583"
    by (rule floor_unique) simp_all
  show "toFixed4 (100 / 3.7795275591) = ''26.4583''"
    unfolding toFixed4_def Let_def f2 by (simp add: decimal.simps digit_def)
  have f3: "\<lfloor>\<bar>10 / 3.7795275591 :: real\<bar> * 10000 + 1 / 2\<rfloor> = 26458"
    by (rule floor_unique) simp_all
  show "toFixed4 (10 / 3.7795275591) = ''2.6458''"
    unfolding toFixed4_def Let_def f3 by (simp add: decimal.simps digit_def)
  have f4: "\<lfloor>\<bar>90 / 3.7795275591 :: real\<bar> * 10000 + 1 / 2\<rfloor> = 238125"
    by (rule floor_unique) simp_all
  show "toFixed4 (90 / 3.7795275591) = ''23.8125''"
    unfolding toFixed4_def Let_def f4 by (simp add: decimal.simps digit_def)
  have f5: "\<lfloor>\<bar>100 / 3.7795275591 - 10 / 3.7795275591 :: real\<bar> * 10000 + 1 / 2\<rfloor> = 238125"
    by (rule floor_unique) simp_all
  show "toFixed4 (100 / 3.7795275591 - 10 / 3.7795275591) = ''23.8125''"
    unfolding toFixed4_def Let_def f5 by (simp add: decimal.simps digit_def)
  have f6: "\<lfloor>\<bar>100 / 3.7795275591 - 90 / 3.7795275591 :: real\<bar> * 10000 + 1 / 2\<rfloor> = 26458"
    by (rule floor_unique) simp_all
  show "toFixed4 (100 / 3.7795275591 - 90 / 3.7795275591) = ''2.6458''"
    unfolding toFixed4_def Let_def f6 by (simp add: decimal.simps digit_def)
  have f7: "\<lfloor>\<bar>5000 / 3.7795275591 :: real\<bar> * 10000 + 1 / 2\<rfloor> = 13229167"
    by (rule floor_unique) simp_all
  show "toFixed4 (5000 / 3.7795275591) = ''1322.9167''"
    unfolding toFixed4_def Let_def f7 by (simp add: decimal.simps digit_def)
  have f8: "\<lfloor>\<bar>100 / 3.7795275591 - 50 / 3.7795275591 :: real\<bar> * 10000 + 1 / 2\<rfloor> = 132292"
    by (rule floor_unique) simp_all
  show "toFixed4 (100 / 3.7795275591 - 50 / 3.7795275591) = ''13.2292''"
    unfolding toFixed4_def Let_def f8 by (simp add: decimal.simps digit_def)
  have f9: "\<lfloor>\<bar>100 / 3.7795275591 - 20 / 3.7795275591 :: real\<bar> * 10000 + 1 / 2\<rfloor> = 211667"
    by (rule floor_unique) simp_all
  show "toFixed4 (100 / 3.7795275591 - 20 / 3.7795275591) = ''21.1667''"
    unfolding toFixed4_def Let_def f9 by (simp add: decimal.simps digit_def)
qed

lemma pie_wedge:
  assumes "cos sa = 0" "sin sa = - 1" "cos ea = 0" "sin ea = - 1" "ea - sa > pi"
  shows "createCircularGridPiece 5000 50 0 30 sa ea 0 0 =
     \<lparr>path = [MoveTo 5000 50, LineTo 5000 20, ArcTo 30 30 0 1 1 5000 20, ClosePath],
      pos = RingSegment 0 0,
      pbounds = \<lparr>bounds_x = 4970, bounds_y = 20, bounds_width = 60, bounds_height = 60\<rparr>\<rparr>"
  using assms by (simp add: createCircularGridPiece_def circleBounds_def Let_def)

lemma full_turn:
  "cos ((real 0 / real_of_int 1) * pi * 2 - pi / 2) = 0"
  "sin ((real 0 / real_of_int 1) * pi * 2 - pi / 2) = - 1"
  "cos (((real 0 + 1) / real_of_int 1) * pi * 2 - pi / 2) = 0"
  "sin (((real 0 + 1) / real_of_int 1) * pi * 2 - pi / 2) = - 1"
  "((real 0 + 1) / real_of_int 1) * pi * 2 - pi / 2 - ((real 0 / real_of_int 1) * pi * 2 - pi / 2) > pi"
proof -
  have sa: "(real 0 / real_of_int 1) * pi * 2 - pi / 2 = - (pi / 2)" by simp
  have ea: "((real 0 + 1) / real_of_int 1) * pi * 2 - pi / 2 = 3 / 2 * pi" by simp
  show "cos ((real 0 / real_of_int 1) * pi * 2 - pi / 2) = 0"
    unfolding sa by simp
  show "sin ((real 0 / real_of_int 1) * pi * 2 - pi / 2) = - 1"
    unfolding sa by simp
  show "cos (((real 0 + 1) / real_of_int 1) * pi * 2 - pi / 2) = 0"
    unfolding ea by (rule cos_3over2_pi)
  show "sin (((real 0 + 1) / real_of_int 1) * pi * 2 - pi / 2) = - 1"
    unfolding ea by (rule sin_3over2_pi)
  show "((real 0 + 1) / real_of_int 1) * pi * 2 - pi / 2 - ((real 0 / real_of_int 1) * pi * 2 - pi / 2) > pi"
    unfolding sa ea by simp
qed

lemma one_segment_puzzle:
  "generate now g
     \<lparr>opt_form = ''circular'', opt_pieceType = ''grid'', opt_cols = 1, opt_rows = 1,
      opt_width = 10000, opt_height = 100, opt_margin = 20, opt_lineWidth = None\<rparr>
   = Inr (\<lparr>pieces = [\<lparr>path = [MoveTo 5000 50, LineTo 5000 20, ArcTo 30 30 0 1 1 5000 20,
                                 ClosePath],
                         pos = RingSegment 0 0,
                         pbounds = \<lparr>bounds_x = 4970, bounds_y = 20, bounds_width = 60,
                                    bounds_height = 60\<rparr>\<rparr>],
           borderPath = [MoveTo 5030 50, ArcTo 30 30 0 1 1 4970 50, ArcTo 30 30 0 1 1 5030 50,
                         ClosePath],
           p_width = 10000, p_height = 100, p_cols = 1, p_rows = 1, p_form = ''circular'',
           p_pieceType = ''grid'', p_lineWidth = 1.5, p_margin = 20,
           p_center = Some (5000, 50, 30)\<rparr>,
          g\<lparr>seed := now\<rparr>)"
proof -
  have pc: "circPiece ''grid'' 5000 50 30 ts 1 1 rt 0 0 =
      Inr \<lparr>path = [MoveTo 5000 50, LineTo 5000 20, ArcTo 30 30 0 1 1 5000 20, ClosePath],
           pos = RingSegment 0 0,
           pbounds = \<lparr>bounds_x = 4970, bounds_y = 20, bounds_width = 60, bounds_height = 60\<rparr>\<rparr>"
    for ts rt
    unfolding circPiece_def Let_def
    using pie_wedge [OF full_turn] by simp
  show ?thesis
    by (simp add: generate_unfolded circ_collect generateTabMatrix_eq pc)
qed

lemma nan_wedge_points:
  assumes "\<forall>i. arc 5000 20 30 30 0 1 1 5000 20 16 i = NaNPt"
  shows "getPathPoints arc [MoveTo 5000 50, LineTo 5000 20, ArcTo 30 30 0 1 1 5000 20, ClosePath] 16
         = [Pt 5000 50, Pt 5000 20] @ replicate 16 NaNPt @ [Pt 5000 50]"
proof -
  from assms have f: "arc 5000 20 30 30 0 1 1 5000 20 16 = (\<lambda>i. NaNPt)"
    by (intro ext) simp
  have m: "map (\<lambda>i. NaNPt) [1..<Suc 16] = replicate 16 NaNPt"
    by (simp only: map_replicate_const length_upt diff_Suc_1)
  have a: "approximateArc arc 5000 20 30 30 0 1 1 5000 20 16 = replicate 16 NaNPt"
    unfolding approximateArc_def f m by simp
  show ?thesis
    by (simp add: getPathPoints_def a)
qed

lemma nan_wedge_lines:
  "polylineLines ''CUT'' (100 / 3.7795275591)
     ([Pt 5000 50, Pt 5000 20] @ replicate 16 NaNPt @ [Pt 5000 50])
   = [''0'', ''LWPOLYLINE'', ''100'', ''AcDbEntity'', ''8'', ''CUT'', ''100'', ''AcDbPolyline'',
      ''90'', ''19'', ''70'', ''1'',
      ''10'', ''1322.9167'', ''20'', ''13.2292'',
      ''10'', ''1322.9167'', ''20'', ''21.1667'']
     @ concat (replicate 16 [''10'', ''NaN'', ''20'', ''NaN''])
     @ [''10'', ''1322.9167'', ''20'', ''13.2292'']"
proof -
  have len: "length ([Pt 5000 50, Pt 5000 20] @ replicate 16 NaNPt @ [Pt 5000 50]) = 19"
    by simp
  show ?thesis
    unfolding polylineLines_def len
    by (simp only: decimal_examples toFixed4_values map_append list.map map_replicate point.case
          concat_append concat.simps append.simps)
qed

lemma square_lines:
  "polylineLines layer (100 / 3.7795275591) [Pt 10 10, Pt 90 10, Pt 90 90, Pt 10 90, Pt 10 10]
   = [''0'', ''LWPOLYLINE'', ''100'', ''AcDbEntity'', ''8'', layer, ''100'', ''AcDbPolyline'',
          ''90'', ''5'', ''70'', ''1'',
          ''10'', ''2.6458'', ''20'', ''23.8125'',
          ''10'', ''23.8125'', ''20'', ''23.8125'',
          ''10'', ''23.8125'', ''20'', ''2.6458'',
          ''10'', ''2.6458'', ''20'', ''2.6458'',
          ''10'', ''2.6458'', ''20'', ''23.8125'']"
proof -
  have len: "length [Pt 10 10, Pt 90 10, Pt 90 90, Pt 10 90, Pt 10 10] = 5" by simp
  show ?thesis
    unfolding polylineLines_def len
    by (simp only: decimal_examples toFixed4_values list.map point.case concat.simps append.simps)
qed

text \<open>
  Claim C7.  For every puzzle that \<open>generate\<close> returns, the DXF text consists of the
  lines below: a header that declares millimeters (\<open>$INSUNITS\<close>, \<open>70\<close>, \<open>4\<close>), a
  layer table with the layers \<open>CUT\<close> and \<open>BORDER\<close>, then one closed LWPOLYLINE on
  layer \<open>CUT\<close> per piece and one on layer \<open>BORDER\<close> for the border (every path that
  \<open>generate\<close> builds flattens to at least two points, so that \<open>pathToPolyline\<close>
  never returns the empty string for it), with the vertices as \<open>polylineLines\<close> has
  them: a vertex whose coordinates are numbers is written as \<open>xPx / 3.7795275591\<close>
  and \<open>heightMM - yPx / 3.7795275591\<close> with four decimals.

  A vertex that the flattening of an arc has made NaN is written \<open>NaN\<close>, and
  \<open>generate\<close> builds such arcs.  With the form \<open>circular\<close>, the piece type
  \<open>grid\<close>, one segment and one ring on a canvas of 10000 by 100 with margin 20, the
  only piece is the wedge \<open>M 5000 50 L 5000 20 A 30 30 0 1 1 5000 20 Z\<close>, whose arc
  ends where it starts.  In double arithmetic \<open>approximateArc\<close>, which guards against
  a radius that is zero only, then divides by zero in its center computation: \<open>sq\<close>
  is infinite, the center (\<open>coef\<close> times zero) is NaN, and so are the 16 points of
  the arc.  This is the hypothesis on \<open>arc\<close> in the second part.  The polyline of
  the piece then has 19 vertices, 16 of which are written \<open>NaN\<close>.
\<close>

theorem dxf_export:
  "(generate now g opts = Inr (p, g') \<longrightarrow>
      exportDXF arc p =
        dxfLines
       ([''0'', ''SECTION'', ''2'', ''HEADER'',
         ''9'', ''$ACADVER'', ''1'', ''AC1015'',
         ''9'', ''$INSUNITS'', ''70'', ''4'',
         ''9'', ''$EXTMIN'', ''10'', ''0.0'', ''20'', ''0.0'', ''30'', ''0.0'',
         ''9'', ''$EXTMAX'', ''10'', toFixed4 (p_width p / 3.7795275591),
                             ''20'', toFixed4 (p_height p / 3.7795275591), ''30'', ''0.0'',
         ''0'', ''ENDSEC'',
         ''0'', ''SECTION'', ''2'', ''TABLES'',
         ''0'', ''TABLE'', ''2'', ''LTYPE'', ''70'', ''1'',
         ''0'', ''LTYPE'', ''2'', ''CONTINUOUS'', ''70'', ''0'', ''3'', ''Solid line'',
                ''72'', ''65'', ''73'', ''0'', ''40'', ''0.0'',
         ''0'', ''ENDTAB'',
         ''0'', ''TABLE'', ''2'', ''LAYER'', ''70'', ''2'',
         ''0'', ''LAYER'', ''2'', ''CUT'', ''70'', ''0'', ''62'', ''1'', ''6'', ''CONTINUOUS'',
         ''0'', ''LAYER'', ''2'', ''BORDER'', ''70'', ''0'', ''62'', ''5'', ''6'', ''CONTINUOUS'',
         ''0'', ''ENDTAB'',
         ''0'', ''ENDSEC'',
         ''0'', ''SECTION'', ''2'', ''ENTITIES'']
           @ concat (map (\<lambda>pc. polylineLines ''CUT'' (p_height p / 3.7795275591)
                                  (getPathPoints arc (path pc) 16))
                       (pieces p))
           @ polylineLines ''BORDER'' (p_height p / 3.7795275591)
               (getPathPoints arc (borderPath p) 16)
           @ [''0'', ''ENDSEC'', ''0'', ''EOF''])) \<and>
   ((\<forall>i. arc 5000 20 30 30 0 1 1 5000 20 16 i = NaNPt) \<longrightarrow>
      (\<exists>q h. generate now g
                \<lparr>opt_form = ''circular'', opt_pieceType = ''grid'', opt_cols = 1, opt_rows = 1,
                 opt_width = 10000, opt_height = 100, opt_margin = 20, opt_lineWidth = None\<rparr>
              = Inr (q, h) \<and>
             map path (pieces q)
             = [[MoveTo 5000 50, LineTo 5000 20, ArcTo 30 30 0 1 1 5000 20, ClosePath]] \<and>
             map (\<lambda>pc. polylineLines ''CUT'' (p_height q / 3.7795275591)
                         (getPathPoints arc (path pc) 16))
                 (pieces q)
             = [[''0'', ''LWPOLYLINE'', ''100'', ''AcDbEntity'', ''8'', ''CUT'', ''100'',
                 ''AcDbPolyline'', ''90'', ''19'', ''70'', ''1'',
                 ''10'', ''1322.9167'', ''20'', ''13.2292'',
                 ''10'', ''1322.9167'', ''20'', ''21.1667'']
                @ concat (replicate 16 [''10'', ''NaN'', ''20'', ''NaN''])
                @ [''10'', ''1322.9167'', ''20'', ''13.2292'']]))"
proof (intro conjI impI)
  assume a: "generate now g opts = Inr (p, g')"
  have two: "2 \<le> length (getPathPoints arc (path pc) 16)" if "pc \<in> set (pieces p)" for pc
    using generated_paths [OF a] flat_two that by blast
  have b: "2 \<le> length (getPathPoints arc (borderPath p) 16)"
    using generated_paths [OF a] flat_two by blast
  have m: "map (\<lambda>pc. if length (getPathPoints arc (path pc) 16) < 2 then []
                      else polylineLines ''CUT'' (p_height p / 3.7795275591)
                             (getPathPoints arc (path pc) 16)) (pieces p)
         = map (\<lambda>pc. polylineLines ''CUT'' (p_height p / 3.7795275591)
                        (getPathPoints arc (path pc) 16)) (pieces p)"
  proof (rule map_cong [OF refl])
    fix pc assume "pc \<in> set (pieces p)"
    from two [OF this]
    show "(if length (getPathPoints arc (path pc) 16) < 2 then []
           else polylineLines ''CUT'' (p_height p / 3.7795275591) (getPathPoints arc (path pc) 16))
        = polylineLines ''CUT'' (p_height p / 3.7795275591) (getPathPoints arc (path pc) 16)"
      by simp
  qed
  have n: "(if length (getPathPoints arc (borderPath p) 16) < 2 then []
            else polylineLines ''BORDER'' (p_height p / 3.7795275591)
                   (getPathPoints arc (borderPath p) 16))
         = polylineLines ''BORDER'' (p_height p / 3.7795275591)
             (getPathPoints arc (borderPath p) 16)"
    using b by simp
  show "exportDXF arc p =
        dxfLines
       ([''0'', ''SECTION'', ''2'', ''HEADER'',
         ''9'', ''$ACADVER'', ''1'', ''AC1015'',
         ''9'', ''$INSUNITS'', ''70'', ''4'',
         ''9'', ''$EXTMIN'', ''10'', ''0.0'', ''20'', ''0.0'', ''30'', ''0.0'',
         ''9'', ''$EXTMAX'', ''10'', toFixed4 (p_width p / 3.7795275591),
                             ''20'', toFixed4 (p_height p / 3.7795275591), ''30'', ''0.0'',
         ''0'', ''ENDSEC'',
         ''0'', ''SECTION'', ''2'', ''TABLES'',
         ''0'', ''TABLE'', ''2'', ''LTYPE'', ''70'', ''1'',
         ''0'', ''LTYPE'', ''2'', ''CONTINUOUS'', ''70'', ''0'', ''3'', ''Solid line'',
                ''72'', ''65'', ''73'', ''0'', ''40'', ''0.0'',
         ''0'', ''ENDTAB'',
         ''0'', ''TABLE'', ''2'', ''LAYER'', ''70'', ''2'',
         ''0'', ''LAYER'', ''2'', ''CUT'', ''70'', ''0'', ''62'', ''1'', ''6'', ''CONTINUOUS'',
         ''0'', ''LAYER'', ''2'', ''BORDER'', ''70'', ''0'', ''62'', ''5'', ''6'', ''CONTINUOUS'',
         ''0'', ''ENDTAB'',
         ''0'', ''ENDSEC'',
         ''0'', ''SECTION'', ''2'', ''ENTITIES'']
           @ concat (map (\<lambda>pc. polylineLines ''CUT'' (p_height p / 3.7795275591)
                                  (getPathPoints arc (path pc) 16))
                       (pieces p))
           @ polylineLines ''BORDER'' (p_height p / 3.7795275591)
               (getPathPoints arc (borderPath p) 16)
           @ [''0'', ''ENDSEC'', ''0'', ''EOF''])"
    unfolding exportDXF_lines m n by (rule refl)
next
  assume nan: "\<forall>i. arc 5000 20 30 30 0 1 1 5000 20 16 i = NaNPt"
  show "\<exists>q h. generate now g
                \<lparr>opt_form = ''circular'', opt_pieceType = ''grid'', opt_cols = 1, opt_rows = 1,
                 opt_width = 10000, opt_height = 100, opt_margin = 20, opt_lineWidth = None\<rparr>
              = Inr (q, h) \<and>
             map path (pieces q)
             = [[MoveTo 5000 50, LineTo 5000 20, ArcTo 30 30 0 1 1 5000 20, ClosePath]] \<and>
             map (\<lambda>pc. polylineLines ''CUT'' (p_height q / 3.7795275591)
                         (getPathPoints arc (path pc) 16))
                 (pieces q)
             = [[''0'', ''LWPOLYLINE'', ''100'', ''AcDbEntity'', ''8'', ''CUT'', ''100'',
                 ''AcDbPolyline'', ''90'', ''19'', ''70'', ''1'',
                 ''10'', ''1322.9167'', ''20'', ''13.2292'',
                 ''10'', ''1322.9167'', ''20'', ''21.1667'']
                @ concat (replicate 16 [''10'', ''NaN'', ''20'', ''NaN''])
                @ [''10'', ''1322.9167'', ''20'', ''13.2292'']]"
    by (intro exI conjI, rule one_segment_puzzle)
       (simp_all only: puzzle.simps piece.simps list.map nan_wedge_points [of arc, OF nan]
          nan_wedge_lines)
qed

theorem dxf_export_witness:
  "generate 0 \<lparr>currentPuzzle = None, seed = 1\<rparr>
     \<lparr>opt_form = ''rectangular'', opt_pieceType = ''grid'', opt_cols = 1, opt_rows = 1,
      opt_width = 100, opt_height = 100, opt_margin = 10, opt_lineWidth = None\<rparr>
   = Inr (generateRectangularPuzzle 1 1 100 100 10 ''grid'' 1.5 ''rectangular''
            \<lparr>currentPuzzle = None, seed = 0\<rparr>) \<and>
   exportDXF
     (\<lambda>x1 y1 rx ry phi fA fS x2 y2 n i. if x1 = x2 \<and> y1 = y2 then NaNPt else Pt x2 y2)
     (fst (generateRectangularPuzzle 1 1 100 100 10 ''grid'' 1.5 ''rectangular''
             \<lparr>currentPuzzle = None, seed = 0\<rparr>))
   = dxfLines
       ([''0'', ''SECTION'', ''2'', ''HEADER'',
         ''9'', ''$ACADVER'', ''1'', ''AC1015'',
         ''9'', ''$INSUNITS'', ''70'', ''4'',
         ''9'', ''$EXTMIN'', ''10'', ''0.0'', ''20'', ''0.0'', ''30'', ''0.0'',
         ''9'', ''$EXTMAX'', ''10'', ''26.4583'',
                             ''20'', ''26.4583'', ''30'', ''0.0'',
         ''0'', ''ENDSEC'',
         ''0'', ''SECTION'', ''2'', ''TABLES'',
         ''0'', ''TABLE'', ''2'', ''LTYPE'', ''70'', ''1'',
         ''0'', ''LTYPE'', ''2'', ''CONTINUOUS'', ''70'', ''0'', ''3'', ''Solid line'',
                ''72'', ''65'', ''73'', ''0'', ''40'', ''0.0'',
         ''0'', ''ENDTAB'',
         ''0'', ''TABLE'', ''2'', ''LAYER'', ''70'', ''2'',
         ''0'', ''LAYER'', ''2'', ''CUT'', ''70'', ''0'', ''62'', ''1'', ''6'', ''CONTINUOUS'',
         ''0'', ''LAYER'', ''2'', ''BORDER'', ''70'', ''0'', ''62'', ''5'', ''6'', ''CONTINUOUS'',
         ''0'', ''ENDTAB'',
         ''0'', ''ENDSEC'',
         ''0'', ''SECTION'', ''2'', ''ENTITIES'']
      @ [''0'', ''LWPOLYLINE'', ''100'', ''AcDbEntity'', ''8'', ''CUT'', ''100'', ''AcDbPolyline'',
          ''90'', ''5'', ''70'', ''1'',
          ''10'', ''2.6458'', ''20'', ''23.8125'',
          ''10'', ''23.8125'', ''20'', ''23.8125'',
          ''10'', ''23.8125'', ''20'', ''2.6458'',
          ''10'', ''2.6458'', ''20'', ''2.6458'',
          ''10'', ''2.6458'', ''20'', ''23.8125'']
      @ [''0'', ''LWPOLYLINE'', ''100'', ''AcDbEntity'', ''8'', ''BORDER'', ''100'', ''AcDbPolyline'',
          ''90'', ''5'', ''70'', ''1'',
          ''10'', ''2.6458'', ''20'', ''23.8125'',
          ''10'', ''23.8125'', ''20'', ''23.8125'',
          ''10'', ''23.8125'', ''20'', ''2.6458'',
          ''10'', ''2.6458'', ''20'', ''2.6458'',
          ''10'', ''2.6458'', ''20'', ''23.8125'']
      @ [''0'', ''ENDSEC'', ''0'', ''EOF'']) \<and>
   (\<forall>i. (\<lambda>x1 y1 rx ry phi fA fS x2 y2 n i.
           if x1 = x2 \<and> y1 = y2 then NaNPt else Pt x2 y2)
          5000 20 30 30 0 1 1 5000 20 16 i = NaNPt) \<and>
   (\<exists>q h. generate 0 \<lparr>currentPuzzle = None, seed = 1\<rparr>
             \<lparr>opt_form = ''circular'', opt_pieceType = ''grid'', opt_cols = 1, opt_rows = 1,
                 opt_width = 10000, opt_height = 100, opt_margin = 20, opt_lineWidth = None\<rparr>
           = Inr (q, h) \<and>
          map path (pieces q)
          = [[MoveTo 5000 50, LineTo 5000 20, ArcTo 30 30 0 1 1 5000 20, ClosePath]] \<and>
          map (\<lambda>pc. polylineLines ''CUT'' (p_height q / 3.7795275591)
                      (getPathPoints
                         (\<lambda>x1 y1 rx ry phi fA fS x2 y2 n i.
                            if x1 = x2 \<and> y1 = y2 then NaNPt else Pt x2 y2)
                         (path pc) 16))
              (pieces q)
          = [[''0'', ''LWPOLYLINE'', ''100'', ''AcDbEntity'', ''8'', ''CUT'', ''100'',
                 ''AcDbPolyline'', ''90'', ''19'', ''70'', ''1'',
                 ''10'', ''1322.9167'', ''20'', ''13.2292'',
                 ''10'', ''1322.9167'', ''20'', ''21.1667'']
                @ concat (replicate 16 [''10'', ''NaN'', ''20'', ''NaN''])
                @ [''10'', ''1322.9167'', ''20'', ''13.2292'']])"
proof -
  let ?g = "\<lparr>currentPuzzle = None, seed = 1\<rparr>"
  let ?o = "\<lparr>opt_form = ''rectangular'', opt_pieceType = ''grid'', opt_cols = 1, opt_rows = 1,
      opt_width = 100, opt_height = 100, opt_margin = 10, opt_lineWidth = None\<rparr>"
  let ?r = "generateRectangularPuzzle 1 1 100 100 10 ''grid'' 1.5 ''rectangular''
            \<lparr>currentPuzzle = None, seed = 0\<rparr>"
  let ?n = "(\<lambda>x1 y1 rx ry phi fA fS x2 y2 n i.
              if x1 = x2 \<and> y1 = y2 then NaNPt else Pt x2 y2)"
  note t = dxf_export [of 0 ?g ?o "fst ?r" "snd ?r" ?n]
  have a: "generate 0 ?g ?o = Inr (fst ?r, snd ?r)"
    by (simp add: generate_unfolded)
  have ps: "pieces (fst ?r) = [createGridPiece 10 10 80 80 0 0]"
    by (simp add: rect_pieces rectPiece_def Let_def)
  have bp: "borderPath (fst ?r) = [MoveTo 10 10, LineTo 90 10, LineTo 90 90, LineTo 10 90, ClosePath]"
    by (simp add: generateRectangularPuzzle_def Let_def case_prod_beta)
  have wh: "p_width (fst ?r) = 100" "p_height (fst ?r) = 100"
    by (simp_all add: generateRectangularPuzzle_def Let_def case_prod_beta)
  have g1: "getPathPoints ?n (path (createGridPiece 10 10 80 80 0 0)) 16
            = [Pt 10 10, Pt 90 10, Pt 90 90, Pt 10 90, Pt 10 10]"
    by (simp add: createGridPiece_def getPathPoints_def)
  have g2: "getPathPoints ?n [MoveTo 10 10, LineTo 90 10, LineTo 90 90, LineTo 10 90, ClosePath] 16
            = [Pt 10 10, Pt 90 10, Pt 90 90, Pt 10 90, Pt 10 10]"
    by (simp add: getPathPoints_def)
  have 1: "exportDXF ?n (fst ?r)
   = dxfLines
       ([''0'', ''SECTION'', ''2'', ''HEADER'',
         ''9'', ''$ACADVER'', ''1'', ''AC1015'',
         ''9'', ''$INSUNITS'', ''70'', ''4'',
         ''9'', ''$EXTMIN'', ''10'', ''0.0'', ''20'', ''0.0'', ''30'', ''0.0'',
         ''9'', ''$EXTMAX'', ''10'', ''26.4583'',
                             ''20'', ''26.4583'', ''30'', ''0.0'',
         ''0'', ''ENDSEC'',
         ''0'', ''SECTION'', ''2'', ''TABLES'',
         ''0'', ''TABLE'', ''2'', ''LTYPE'', ''70'', ''1'',
         ''0'', ''LTYPE'', ''2'', ''CONTINUOUS'', ''70'', ''0'', ''3'', ''Solid line'',
                ''72'', ''65'', ''73'', ''0'', ''40'', ''0.0'',
         ''0'', ''ENDTAB'',
         ''0'', ''TABLE'', ''2'', ''LAYER'', ''70'', ''2'',
         ''0'', ''LAYER'', ''2'', ''CUT'', ''70'', ''0'', ''62'', ''1'', ''6'', ''CONTINUOUS'',
         ''0'', ''LAYER'', ''2'', ''BORDER'', ''70'', ''0'', ''62'', ''5'', ''6'', ''CONTINUOUS'',
         ''0'', ''ENDTAB'',
         ''0'', ''ENDSEC'',
         ''0'', ''SECTION'', ''2'', ''ENTITIES'']
      @ [''0'', ''LWPOLYLINE'', ''100'', ''AcDbEntity'', ''8'', ''CUT'', ''100'', ''AcDbPolyline'',
          ''90'', ''5'', ''70'', ''1'',
          ''10'', ''2.6458'', ''20'', ''23.8125'',
          ''10'', ''23.8125'', ''20'', ''23.8125'',
          ''10'', ''23.8125'', ''20'', ''2.6458'',
          ''10'', ''2.6458'', ''20'', ''2.6458'',
          ''10'', ''2.6458'', ''20'', ''23.8125'']
      @ [''0'', ''LWPOLYLINE'', ''100'', ''AcDbEntity'', ''8'', ''BORDER'', ''100'', ''AcDbPolyline'',
          ''90'', ''5'', ''70'', ''1'',
          ''10'', ''2.6458'', ''20'', ''23.8125'',
          ''10'', ''23.8125'', ''20'', ''23.8125'',
          ''10'', ''23.8125'', ''20'', ''2.6458'',
          ''10'', ''2.6458'', ''20'', ''2.6458'',
          ''10'', ''2.6458'', ''20'', ''23.8125'']
      @ [''0'', ''ENDSEC'', ''0'', ''EOF''])"
    using t [THEN conjunct1, rule_format, OF a]
    unfolding ps bp wh list.map g1 g2 square_lines toFixed4_values concat.simps append_Nil2
    by assumption
  have 2: "\<forall>i. ?n 5000 20 30 30 0 1 1 5000 20 16 i = NaNPt" by simp
  note 3 = t [THEN conjunct2, THEN mp, OF 2]
  show ?thesis using a 1 2 3 by (simp only: prod.collapse simp_thms)
qed

end
